theory Spec2Isabelle
  imports Complex_Main "HOL-Library.Log_Nat"
begin

section \<open>Blood compatibility tables\<close>

text \<open>
  Blood types are the strings of the Mongoose enums of \<open>Alert.bloodType\<close> and
  \<open>Donor.medicalInfo.bloodGroup\<close>. The JavaScript tables are object literals looked up
  with \<open>table[key] || []\<close>: an association list and a lookup that falls back to the
  empty list.
\<close>

definition bloodTypes :: "string list" where
  "bloodTypes = [''A+'', ''A-'', ''B+'', ''B-'', ''AB+'', ''AB-'', ''O+'', ''O-'']"

definition lookupOrEmpty :: "(string \<times> string list) list \<Rightarrow> string \<Rightarrow> string list" where
  "lookupOrEmpty table key = (case map_of table key of Some v \<Rightarrow> v | None \<Rightarrow> [])"

text \<open>The table of \<open>findEligibleDonors\<close> (alerts route): recipient type to donor types.\<close>

definition compatibleDonorTypesTable :: "(string \<times> string list) list" where
  "compatibleDonorTypesTable =
    [(''A+'', [''A+'', ''A-'', ''O+'', ''O-'']),
     (''A-'', [''A-'', ''O-'']),
     (''B+'', [''B+'', ''B-'', ''O+'', ''O-'']),
     (''B-'', [''B-'', ''O-'']),
     (''AB+'', [''A+'', ''A-'', ''B+'', ''B-'', ''AB+'', ''AB-'', ''O+'', ''O-'']),
     (''AB-'', [''A-'', ''B-'', ''AB-'', ''O-'']),
     (''O+'', [''O+'', ''O-'']),
     (''O-'', [''O-''])]"

definition compatibleDonorTypes :: "string \<Rightarrow> string list" where
  "compatibleDonorTypes bloodType = lookupOrEmpty compatibleDonorTypesTable bloodType"

text \<open>The copy of the same table inside \<open>Alert.checkDonorEligibility\<close>.\<close>

definition compatibleBloodTypesTable :: "(string \<times> string list) list" where
  "compatibleBloodTypesTable =
    [(''A+'', [''A+'', ''A-'', ''O+'', ''O-'']),
     (''A-'', [''A-'', ''O-'']),
     (''B+'', [''B+'', ''B-'', ''O+'', ''O-'']),
     (''B-'', [''B-'', ''O-'']),
     (''AB+'', [''A+'', ''A-'', ''B+'', ''B-'', ''AB+'', ''AB-'', ''O+'', ''O-'']),
     (''AB-'', [''A-'', ''B-'', ''AB-'', ''O-'']),
     (''O+'', [''O+'', ''O-'']),
     (''O-'', [''O-''])]"

definition compatibleBloodTypes :: "string \<Rightarrow> string list" where
  "compatibleBloodTypes bloodType = lookupOrEmpty compatibleBloodTypesTable bloodType"

text \<open>The table of \<open>getCompatibleBloodTypes\<close> (donors route): donor type to alert types.\<close>

definition compatibilityTable :: "(string \<times> string list) list" where
  "compatibilityTable =
    [(''A+'', [''A+'', ''AB+'']),
     (''A-'', [''A+'', ''A-'', ''AB+'', ''AB-'']),
     (''B+'', [''B+'', ''AB+'']),
     (''B-'', [''B+'', ''B-'', ''AB+'', ''AB-'']),
     (''AB+'', [''AB+'']),
     (''AB-'', [''AB+'', ''AB-'']),
     (''O+'', [''A+'', ''B+'', ''AB+'', ''O+'']),
     (''O-'', [''A+'', ''A-'', ''B+'', ''B-'', ''AB+'', ''AB-'', ''O+'', ''O-''])]"

definition getCompatibleBloodTypes :: "string \<Rightarrow> string list" where
  "getCompatibleBloodTypes donorBloodType = lookupOrEmpty compatibilityTable donorBloodType"

subsection \<open>The standard ABO/Rh chart, from the antigens\<close>

text \<open>
  The reference the tables are compared with, not taken from the code: a blood type
  names the antigens on the red cells (A, B, RhD), and a donation is compatible when
  the donor carries no antigen that the recipient lacks.
\<close>

definition hasA :: "string \<Rightarrow> bool" where
  "hasA t = (CHR ''A'' \<in> set t)"

definition hasB :: "string \<Rightarrow> bool" where
  "hasB t = (CHR ''B'' \<in> set t)"

definition rhPositive :: "string \<Rightarrow> bool" where
  "rhPositive t = (CHR ''+'' \<in> set t)"

definition standardCanDonate :: "string \<Rightarrow> string \<Rightarrow> bool" where
  "standardCanDonate donor recipient =
    ((hasA donor \<longrightarrow> hasA recipient) \<and>
     (hasB donor \<longrightarrow> hasB recipient) \<and>
     (rhPositive donor \<longrightarrow> rhPositive recipient))"

section \<open>Dates and numbers of the JavaScript runtime\<close>

text \<open>
  A \<open>Date\<close> is its time value: integer milliseconds since 1970-01-01T00:00:00Z.
  Subtracting two dates gives the difference of the time values. The calendar getters
  \<open>getFullYear\<close>, \<open>getMonth\<close> (0 = January) and \<open>getDate\<close> read the local time of
  the host: the time value plus the offset of the host's time zone from UTC at that
  instant, in milliseconds, decomposed in the proleptic Gregorian calendar. The zone is
  a parameter of everything that reads a calendar field; \<open>civil\<close> is the decomposition of
  a count of milliseconds into year, month and day of the month.
  \<open>Math.floor\<close> of a difference of time values divided by a positive integer constant
  is written as the integer quotient \<open>div\<close>, which rounds toward minus infinity;
  the lemma \<open>floor_double_quotient\<close> below shows that the double quotient floors to it
  for every difference below 2^53 in magnitude.
\<close>

type_synonym date = int

definition msPerDay :: int where
  "msPerDay = 1000 * 60 * 60 * 24"

definition civil :: "int \<Rightarrow> int \<times> int \<times> int" where
  "civil t =
    (let z = t div msPerDay + 719468;
         era = z div 146097;
         doe = z mod 146097;
         yoe = (doe - doe div 1460 + doe div 36524 - doe div 146096) div 365;
         doy = doe - (365 * yoe + yoe div 4 - yoe div 100);
         mp = (5 * doy + 2) div 153;
         dd = doy - (153 * mp + 2) div 5 + 1;
         mm = (if mp < 10 then mp + 3 else mp - 9);
         yy = yoe + era * 400 + (if mm \<le> 2 then 1 else 0)
     in (yy, mm - 1, dd))"

type_synonym timeZone = "date \<Rightarrow> int"

type_synonym calendarDate = "int \<times> int \<times> int"

definition localDate :: "timeZone \<Rightarrow> date \<Rightarrow> calendarDate" where
  "localDate zone t = civil (t + zone t)"

definition getFullYear :: "timeZone \<Rightarrow> date \<Rightarrow> int" where
  "getFullYear zone t = fst (localDate zone t)"

definition getMonth :: "timeZone \<Rightarrow> date \<Rightarrow> int" where
  "getMonth zone t = fst (snd (localDate zone t))"

definition getDate :: "timeZone \<Rightarrow> date \<Rightarrow> int" where
  "getDate zone t = snd (snd (localDate zone t))"

text \<open>\<open>String(n)\<close> for an integer: the decimal digits, with a minus sign below zero.\<close>

definition digitChar :: "nat \<Rightarrow> char" where
  "digitChar n = ''0123456789'' ! (n mod 10)"

fun showNat :: "nat \<Rightarrow> string" where
  "showNat n =
    (if n < 10 then [digitChar n]
     else showNat (n div 10) @ [digitChar (n mod 10)])"

definition showInt :: "int \<Rightarrow> string" where
  "showInt i = (if i < 0 then CHR ''-'' # showNat (nat (- i)) else showNat (nat i))"

text \<open>\<open>null\<close> in a numeric comparison is the number 0.\<close>

definition toNumber :: "int option \<Rightarrow> int" where
  "toNumber v = (case v of None \<Rightarrow> 0 | Some n \<Rightarrow> n)"

section \<open>Donor eligibility (Donor model)\<close>

type_synonym objectId = string

text \<open>
  The fields of the Donor document that the alert logic reads, flattened:
  \<open>personalInfo\<close>, \<open>medicalInfo\<close>, \<open>eligibility\<close> (with \<open>temporaryDeferral\<close>),
  \<open>preferences\<close> (with \<open>notificationMethods\<close>) and the populated \<open>user.email\<close>.
  A field without a default that may be missing is an option.
\<close>

record donor =
  donor_id :: objectId
  userEmail :: string
  firstName :: string
  lastName :: string
  dateOfBirth :: "date option"
  phone :: string
  bloodGroup :: string
  weight :: rat
  hasInfectiousDisease :: bool
  isEligible :: bool
  lastDonationDate :: "date option"
  deferralReason :: "string option"
  deferralUntil :: "date option"
  notifyEmail :: bool
  notifySms :: bool
  notifyPush :: bool
  maxTravelDistance :: rat
  emergencyOnly :: bool
  donorIsActive :: bool
  verificationStatus :: string

text \<open>
  The \<open>age\<close> virtual; \<open>today\<close> is the \<open>new Date()\<close> of the call and \<open>zone\<close> the time zone
  of the host.
\<close>

definition age :: "timeZone \<Rightarrow> date \<Rightarrow> donor \<Rightarrow> int option" where
  "age zone today d =
    (case dateOfBirth d of
       None \<Rightarrow> None
     | Some birthDate \<Rightarrow>
         (let a = getFullYear zone today - getFullYear zone birthDate;
              monthDiff = getMonth zone today - getMonth zone birthDate
          in if monthDiff < 0 \<or>
                (monthDiff = 0 \<and> getDate zone today < getDate zone birthDate)
             then Some (a - 1) else Some a))"

record eligibilityResult =
  eligible :: bool
  reason :: "string option"

text \<open>
  \<open>checkEligibility\<close>, in the order of its early returns. \<open>deferralAndMedical\<close> is the
  rest of the method after the last-donation block.
\<close>

definition deferralAndMedical :: "date \<Rightarrow> donor \<Rightarrow> eligibilityResult" where
  "deferralAndMedical now d =
    (if (case deferralUntil d of None \<Rightarrow> False | Some u \<Rightarrow> u > now) then
       \<lparr>eligible = False, reason = deferralReason d\<rparr>
     else if hasInfectiousDisease d then
       \<lparr>eligible = False, reason = Some ''Medical condition prevents donation''\<rparr>
     else
       \<lparr>eligible = True, reason = Some ''Eligible for donation''\<rparr>)"

definition checkEligibility :: "timeZone \<Rightarrow> date \<Rightarrow> donor \<Rightarrow> eligibilityResult" where
  "checkEligibility zone now d =
    (if toNumber (age zone now d) < 18 \<or> toNumber (age zone now d) > 65 then
       \<lparr>eligible = False, reason = Some ''Age not within eligible range (18-65)''\<rparr>
     else if weight d < 45 then
       \<lparr>eligible = False, reason = Some ''Weight below minimum requirement (45kg)''\<rparr>
     else
       (case lastDonationDate d of
          None \<Rightarrow> deferralAndMedical now d
        | Some l \<Rightarrow>
            (let daysSinceLastDonation = (now - l) div msPerDay
             in if daysSinceLastDonation < 56 then
                  \<lparr>eligible = False,
                   reason = Some (''Must wait '' @ showInt (56 - daysSinceLastDonation) @
                     '' more days since last donation'')\<rparr>
                else deferralAndMedical now d)))"

section \<open>The Alert document\<close>

text \<open>
  The Alert schema with the fields the alert logic reads or writes; sub-documents are
  records of their own. A path with a schema default always has a value; a path
  without one may be missing (\<open>undefined\<close>), which is \<open>None\<close>. Enum-typed paths stay
  strings, as the code compares them with \<open>===\<close>. Counters are integers.
\<close>

record notificationEntry =
  n_donor :: objectId
  n_method :: string
  n_sentAt :: date
  n_opened :: bool
  n_responded :: bool
  n_respondedAt :: "date option"
  n_response :: "string option"

record contactInfo =
  c_phone :: "string option"
  c_email :: "string option"

record donationDetails =
  dd_volume :: "int option"
  dd_date :: "date option"
  dd_location :: "string option"
  dd_notes :: "string option"

record response =
  r_donor :: objectId
  r_responseType :: string
  r_message :: "string option"
  r_contactInfo :: "contactInfo option"
  r_estimatedArrival :: "string option"
  r_donationCompleted :: bool
  r_donationDetails :: "donationDetails option"
  r_responseTime :: "int option"
  r_timestamp :: date

record sharedEntry =
  s_hospital :: objectId
  s_sharedAt :: date
  s_response :: "string option"
  s_unitsPromised :: int
  s_unitsDelivered :: int
  s_notes :: "string option"

record notifications =
  sent :: int
  opened :: int
  responded :: int
  sentTo :: "notificationEntry list"

record alert =
  alertId :: objectId
  hospital :: objectId
  bloodType :: string
  urgencyLevel :: string
  unitsNeeded :: int
  unitsCollected :: int
  searchRadius :: rat
  status :: string
  notifications :: notifications
  responses :: "response list"
  allowSharing :: bool
  sharedWith :: "sharedEntry list"
  expiresAt :: date
  internalNotes :: "string option"

subsection \<open>Construction with the schema defaults\<close>

record alertData =
  ad_hospital :: objectId
  ad_bloodType :: string
  ad_urgencyLevel :: string
  ad_unitsNeeded :: int
  ad_searchRadius :: rat

text \<open>The \<open>default\<close> function of \<open>expiresAt\<close>; \<open>now\<close> is its \<open>Date.now()\<close>.\<close>

definition defaultExpiresAt :: "date \<Rightarrow> string \<Rightarrow> date" where
  "defaultExpiresAt now urgency =
    (let hours = (if urgency = ''critical'' then 24 else 72)
     in now + hours * 60 * 60 * 1000)"

text \<open>\<open>new Alert(alertData)\<close> as the create route calls it, \<open>newId\<close> being the generated id.\<close>

definition newAlert :: "date \<Rightarrow> objectId \<Rightarrow> alertData \<Rightarrow> alert" where
  "newAlert now newId data =
    \<lparr>alertId = newId,
     hospital = ad_hospital data,
     bloodType = ad_bloodType data,
     urgencyLevel = ad_urgencyLevel data,
     unitsNeeded = ad_unitsNeeded data,
     unitsCollected = 0,
     searchRadius = ad_searchRadius data,
     status = ''active'',
     notifications = \<lparr>sent = 0, opened = 0, responded = 0, sentTo = []\<rparr>,
     responses = [],
     allowSharing = True,
     sharedWith = [],
     expiresAt = defaultExpiresAt now (ad_urgencyLevel data),
     internalNotes = None\<rparr>"

subsection \<open>addResponse\<close>

text \<open>
  The third argument of \<open>addResponse\<close> is an object spread into the response after
  \<open>donor\<close> and \<open>responseType\<close>, so a key it carries overrides them.
\<close>

record additionalData =
  x_donor :: "objectId option"
  x_responseType :: "string option"
  x_message :: "string option"
  x_estimatedArrival :: "string option"
  x_contactInfo :: "contactInfo option"
  x_donationCompleted :: "bool option"
  x_donationDetails :: "donationDetails option"

text \<open>The in-place update of the notification that \<open>find\<close> returned: the first match.\<close>

fun markResponded :: "date \<Rightarrow> objectId \<Rightarrow> string \<Rightarrow> notificationEntry list \<Rightarrow> notificationEntry list" where
  "markResponded now donorId responseType [] = []"
| "markResponded now donorId responseType (n # ns) =
    (if n_donor n = donorId
     then n\<lparr>n_responded := True, n_respondedAt := Some now, n_response := Some responseType\<rparr> # ns
     else n # markResponded now donorId responseType ns)"

definition addResponse :: "date \<Rightarrow> objectId \<Rightarrow> string \<Rightarrow> additionalData \<Rightarrow> alert \<Rightarrow> alert" where
  "addResponse now donorId responseType additionalData a =
    (let notification = find (\<lambda>n. n_donor n = donorId) (sentTo (notifications a));
         response =
           \<lparr>r_donor = (case x_donor additionalData of Some d \<Rightarrow> d | None \<Rightarrow> donorId),
            r_responseType =
              (case x_responseType additionalData of Some t \<Rightarrow> t | None \<Rightarrow> responseType),
            r_message = x_message additionalData,
            r_contactInfo = x_contactInfo additionalData,
            r_estimatedArrival = x_estimatedArrival additionalData,
            r_donationCompleted =
              (case x_donationCompleted additionalData of Some b \<Rightarrow> b | None \<Rightarrow> False),
            r_donationDetails = x_donationDetails additionalData,
            r_responseTime =
              (case notification of
                 None \<Rightarrow> None
               | Some n \<Rightarrow> Some ((now - n_sentAt n) div (1000 * 60))),
            r_timestamp = now\<rparr>;
         a1 = a\<lparr>notifications := (notifications a)
                  \<lparr>sentTo := markResponded now donorId responseType (sentTo (notifications a)),
                   responded := responded (notifications a) + 1\<rparr>,
                responses := responses a @ [response]\<rparr>
     in if responseType = ''donated'' \<and> x_donationDetails additionalData \<noteq> None then
          (let a2 = a1\<lparr>unitsCollected := unitsCollected a1 + 1\<rparr>
           in if unitsCollected a2 \<ge> unitsNeeded a2 then a2\<lparr>status := ''fulfilled''\<rparr>
              else if unitsCollected a2 > 0 then a2\<lparr>status := ''partially_fulfilled''\<rparr>
              else a2)
        else a1)"

text \<open>\<open>extendExpiry\<close> and \<open>isExpired\<close>.\<close>

definition extendExpiry :: "int \<Rightarrow> alert \<Rightarrow> alert" where
  "extendExpiry hours a = a\<lparr>expiresAt := expiresAt a + hours * 60 * 60 * 1000\<rparr>"

definition isExpired :: "date \<Rightarrow> alert \<Rightarrow> bool" where
  "isExpired now a = (now > expiresAt a)"

subsection \<open>Saving: the schema's validators\<close>

text \<open>
  \<open>alert.save()\<close> runs the validators of the schema and throws on a value outside an
  enum or below a minimum; the route handlers answer a thrown error with status 500.
  Failures of the store itself are not modelled.
\<close>

datatype error =
    ValidationFailed
  | NotFound string
  | BadRequest string
  | ServerError

definition statusCode :: "error \<Rightarrow> nat" where
  "statusCode e =
    (case e of ValidationFailed \<Rightarrow> 400 | NotFound m \<Rightarrow> 404 | BadRequest m \<Rightarrow> 400
     | ServerError \<Rightarrow> 500)"

definition inEnum :: "string list \<Rightarrow> string option \<Rightarrow> bool" where
  "inEnum allowed v = (case v of None \<Rightarrow> True | Some x \<Rightarrow> x \<in> set allowed)"

definition alertValid :: "alert \<Rightarrow> bool" where
  "alertValid a =
    (bloodType a \<in> set bloodTypes \<and>
     urgencyLevel a \<in> set [''low'', ''medium'', ''high'', ''critical''] \<and>
     unitsNeeded a \<ge> 1 \<and>
     5 \<le> searchRadius a \<and> searchRadius a \<le> 200 \<and>
     status a \<in> set [''active'', ''partially_fulfilled'', ''fulfilled'', ''expired'', ''cancelled''] \<and>
     list_all (\<lambda>n. n_method n \<in> set [''email'', ''sms'', ''push''] \<and>
                   inEnum [''interested'', ''not_available'', ''not_eligible''] (n_response n))
       (sentTo (notifications a)) \<and>
     list_all (\<lambda>r. r_responseType r \<in>
                   set [''interested'', ''committed'', ''donated'', ''not_available'', ''not_eligible''])
       (responses a) \<and>
     list_all (\<lambda>s. inEnum [''pending'', ''accepted'', ''declined'', ''partially_fulfilled''] (s_response s))
       (sharedWith a))"

definition save :: "alert \<Rightarrow> error + alert" where
  "save a = (if alertValid a then Inr a else Inl ServerError)"

section \<open>The donor's respond route\<close>

text \<open>
  \<open>POST /alerts/:alertId/respond\<close>. The request body after JSON parsing: a missing
  key is \<open>None\<close>. The sanitiser \<open>trim\<close> and the check \<open>isISO8601\<close> belong to the
  validation library and are parameters. \<open>donor\<close> and \<open>alert\<close> are what
  \<open>Donor.findOne\<close> and \<open>Alert.findById\<close> returned; \<open>email\<close> is \<open>req.user.email\<close>. The
  result is the alert as saved, or the error of the response. A body that passed the
  validation has a \<open>responseType\<close>, so the last \<open>None\<close> case is never taken.
\<close>

record validatorLib =
  isISO8601 :: "string \<Rightarrow> bool"
  isMongoId :: "string \<Rightarrow> bool"
  trim :: "string \<Rightarrow> string"

record respondBody =
  rb_responseType :: "string option"
  rb_message :: "string option"
  rb_estimatedArrival :: "string option"

definition respondBodyValid :: "validatorLib \<Rightarrow> respondBody \<Rightarrow> bool" where
  "respondBodyValid lib body =
    ((case rb_responseType body of
        None \<Rightarrow> False
      | Some t \<Rightarrow> t \<in> set [''interested'', ''committed'', ''not_available'', ''not_eligible'']) \<and>
     (case rb_estimatedArrival body of None \<Rightarrow> True | Some t \<Rightarrow> isISO8601 lib t))"

text \<open>The \<open>responseData\<close> object of the handler.\<close>

definition responseData ::
  "validatorLib \<Rightarrow> string \<Rightarrow> donor \<Rightarrow> string \<Rightarrow> respondBody \<Rightarrow> additionalData" where
  "responseData lib email d responseType body =
    \<lparr>x_donor = Some (donor_id d),
     x_responseType = Some responseType,
     x_message = map_option (trim lib) (rb_message body),
     x_estimatedArrival = rb_estimatedArrival body,
     x_contactInfo = Some \<lparr>c_phone = Some (phone d), c_email = Some email\<rparr>,
     x_donationCompleted = None,
     x_donationDetails = None\<rparr>"

definition respondToAlert ::
  "validatorLib \<Rightarrow> date \<Rightarrow> string \<Rightarrow> donor option \<Rightarrow> alert option \<Rightarrow> respondBody \<Rightarrow> error + alert" where
  "respondToAlert lib now email donor alert body =
    (if \<not> respondBodyValid lib body then Inl ValidationFailed
     else case donor of
       None \<Rightarrow> Inl (NotFound ''Donor profile not found'')
     | Some d \<Rightarrow>
       (case alert of
          None \<Rightarrow> Inl (NotFound ''Alert not found'')
        | Some a \<Rightarrow>
          if status a \<noteq> ''active'' then Inl (BadRequest ''Alert is no longer active'')
          else if find (\<lambda>r. r_donor r = donor_id d) (responses a) \<noteq> None
            then Inl (BadRequest ''You have already responded to this alert'')
          else
            (case rb_responseType body of
               None \<Rightarrow> Inl ValidationFailed
             | Some responseType \<Rightarrow>
                 save (addResponse now (donor_id d) responseType
                         (responseData lib email d responseType body) a))))"

section \<open>Donor matching\<close>

text \<open>
  The loop of \<open>findEligibleDonors\<close> over \<open>donors\<close>, the result of the store's
  proximity query, with \<open>eligibleDonors\<close> as its accumulator. The alert was saved just
  before the call, so \<open>Alert.exists\<close> with this alert's id and the donor among
  \<open>responses.donor\<close> looks at the responses of the alert itself.
\<close>

text \<open>
  The filter of the \<open>Donor.find\<close> query that produces the candidates; \<open>near\<close> stands
  for the store's test that a donor lies within the search radius of the alert.
\<close>

definition donorQueryMatches :: "(donor \<Rightarrow> bool) \<Rightarrow> alert \<Rightarrow> donor \<Rightarrow> bool" where
  "donorQueryMatches near a d =
    (bloodGroup d \<in> set (compatibleDonorTypes (bloodType a)) \<and> isEligible d \<and>
     verificationStatus d = ''verified'' \<and> donorIsActive d \<and> near d)"

definition hasResponded :: "alert \<Rightarrow> donor \<Rightarrow> bool" where
  "hasResponded a d = (find (\<lambda>r. r_donor r = donor_id d) (responses a) \<noteq> None)"

fun filterCandidates ::
  "timeZone \<Rightarrow> date \<Rightarrow> alert \<Rightarrow> donor list \<Rightarrow> donor list \<Rightarrow> donor list" where
  "filterCandidates zone now a [] eligibleDonors = eligibleDonors"
| "filterCandidates zone now a (d # donors) eligibleDonors =
    (if \<not> eligible (checkEligibility zone now d)
       then filterCandidates zone now a donors eligibleDonors
     else if maxTravelDistance d < searchRadius a
       then filterCandidates zone now a donors eligibleDonors
     else if hasResponded a d then filterCandidates zone now a donors eligibleDonors
     else if emergencyOnly d \<and> urgencyLevel a \<noteq> ''critical''
       then filterCandidates zone now a donors eligibleDonors
     else filterCandidates zone now a donors (eligibleDonors @ [d]))"

definition findEligibleDonors ::
  "timeZone \<Rightarrow> date \<Rightarrow> alert \<Rightarrow> donor list \<Rightarrow> donor list" where
  "findEligibleDonors zone now a donors = filterCandidates zone now a donors []"

text \<open>A candidate that passes the four checks of the loop body.\<close>

definition keepsCandidate :: "timeZone \<Rightarrow> date \<Rightarrow> alert \<Rightarrow> donor \<Rightarrow> bool" where
  "keepsCandidate zone now a d =
    (eligible (checkEligibility zone now d) \<and> \<not> maxTravelDistance d < searchRadius a \<and>
     \<not> hasResponded a d \<and> \<not> (emergencyOnly d \<and> urgencyLevel a \<noteq> ''critical''))"

text \<open>\<open>Alert.checkDonorEligibility\<close>, a static of the model.\<close>

definition checkDonorEligibility ::
  "timeZone \<Rightarrow> date \<Rightarrow> donor \<Rightarrow> alert \<Rightarrow> eligibilityResult" where
  "checkDonorEligibility zone now d a =
    (if bloodGroup d \<notin> set (compatibleBloodTypes (bloodType a)) then
       \<lparr>eligible = False, reason = Some ''Blood type incompatible''\<rparr>
     else if \<not> eligible (checkEligibility zone now d) then checkEligibility zone now d
     else \<lparr>eligible = True, reason = Some ''Eligible for this alert''\<rparr>)"

section \<open>Notification dispatch\<close>

text \<open>
  \<open>sendBloodShortageAlert\<close>. The transports are outside the code: \<open>emailOk\<close> and
  \<open>smsOk\<close> say whether \<open>sendEmailAlert\<close> and \<open>sendSMSAlert\<close> return for a donor or
  throw (an unconfigured transport throws for every donor). \<open>sendPushAlert\<close> only
  builds a payload and returns. \<open>sendLog\<close> records every send that was called, in
  order.
\<close>

record sender =
  emailOk :: "donor \<Rightarrow> bool"
  smsOk :: "donor \<Rightarrow> bool"

record dispatchResults =
  emailSent :: int
  emailFailed :: int
  smsSent :: int
  smsFailed :: int
  pushSent :: int
  pushFailed :: int

record dispatchState =
  results :: dispatchResults
  sentToList :: "notificationEntry list"
  sendLog :: "(string \<times> objectId) list"

definition getPreferredMethod :: "donor \<Rightarrow> string" where
  "getPreferredMethod d =
    (if notifyEmail d then ''email''
     else if notifySms d then ''sms''
     else if notifyPush d then ''push''
     else ''email'')"

definition incrementFailedCount :: "dispatchResults \<Rightarrow> donor \<Rightarrow> dispatchResults" where
  "incrementFailedCount r d =
    (let r1 = (if notifyEmail d then r\<lparr>emailFailed := emailFailed r + 1\<rparr> else r);
         r2 = (if notifySms d then r1\<lparr>smsFailed := smsFailed r1 + 1\<rparr> else r1)
     in if notifyPush d then r2\<lparr>pushFailed := pushFailed r2 + 1\<rparr> else r2)"

text \<open>
  The body of the \<open>try\<close> for one donor: \<open>Inl\<close> is the state at the point where a send
  threw, \<open>Inr\<close> the state at the end of the block.
\<close>

definition logSend :: "string \<Rightarrow> donor \<Rightarrow> dispatchState \<Rightarrow> dispatchState" where
  "logSend channel d s = s\<lparr>sendLog := sendLog s @ [(channel, donor_id d)]\<rparr>"

definition tryNotify :: "sender \<Rightarrow> date \<Rightarrow> donor \<Rightarrow> dispatchState \<Rightarrow> dispatchState + dispatchState" where
  "tryNotify env now d s0 =
    (case (if notifyEmail d then
             (if emailOk env d
              then Inr ((logSend ''email'' d s0)
                     \<lparr>results := (results s0)\<lparr>emailSent := emailSent (results s0) + 1\<rparr>\<rparr>)
              else Inl (logSend ''email'' d s0))
           else Inr s0) of
       Inl s \<Rightarrow> Inl s
     | Inr s1 \<Rightarrow>
       (case (if notifySms d then
                (if smsOk env d
                 then Inr ((logSend ''sms'' d s1)
                        \<lparr>results := (results s1)\<lparr>smsSent := smsSent (results s1) + 1\<rparr>\<rparr>)
                 else Inl (logSend ''sms'' d s1))
              else Inr s1) of
          Inl s \<Rightarrow> Inl s
        | Inr s2 \<Rightarrow>
          (let s3 = (if notifyPush d
                     then (logSend ''push'' d s2)
                        \<lparr>results := (results s2)\<lparr>pushSent := pushSent (results s2) + 1\<rparr>\<rparr>
                     else s2)
           in Inr (s3\<lparr>sentToList := sentToList s3 @
                 [\<lparr>n_donor = donor_id d, n_method = getPreferredMethod d, n_sentAt = now,
                   n_opened = False, n_responded = False, n_respondedAt = None,
                   n_response = None\<rparr>]\<rparr>))))"

definition notifyDonor :: "sender \<Rightarrow> date \<Rightarrow> dispatchState \<Rightarrow> donor \<Rightarrow> dispatchState" where
  "notifyDonor env now s d =
    (case tryNotify env now d s of
       Inr s' \<Rightarrow> s'
     | Inl s' \<Rightarrow> s'\<lparr>results := incrementFailedCount (results s') d\<rparr>)"

text \<open>
  Some send that is called for the donor throws: the e-mail send, or the SMS send that
  follows when the e-mail send did not throw.
\<close>

definition sendThrows :: "sender \<Rightarrow> donor \<Rightarrow> bool" where
  "sendThrows env d = ((notifyEmail d \<and> \<not> emailOk env d) \<or> (notifySms d \<and> \<not> smsOk env d))"

definition initialResults :: dispatchResults where
  "initialResults =
    \<lparr>emailSent = 0, emailFailed = 0, smsSent = 0, smsFailed = 0, pushSent = 0, pushFailed = 0\<rparr>"

definition dispatchLoop :: "sender \<Rightarrow> date \<Rightarrow> alert \<Rightarrow> donor list \<Rightarrow> dispatchState" where
  "dispatchLoop env now a donors =
    foldl (notifyDonor env now)
      \<lparr>results = initialResults, sentToList = sentTo (notifications a), sendLog = []\<rparr> donors"

text \<open>The alert in memory after the loop and the update of the statistics.\<close>

definition dispatchedAlert :: "sender \<Rightarrow> date \<Rightarrow> alert \<Rightarrow> donor list \<Rightarrow> alert" where
  "dispatchedAlert env now a donors =
    a\<lparr>notifications := (notifications a)
        \<lparr>sentTo := sentToList (dispatchLoop env now a donors),
         sent := sent (notifications a) + int (length donors)\<rparr>\<rparr>"

definition sendBloodShortageAlert ::
  "sender \<Rightarrow> date \<Rightarrow> alert \<Rightarrow> donor list \<Rightarrow> error + (dispatchResults \<times> alert)" where
  "sendBloodShortageAlert env now a donors =
    (case save (dispatchedAlert env now a donors) of
       Inl e \<Rightarrow> Inl e
     | Inr a' \<Rightarrow> Inr (results (dispatchLoop env now a donors), a'))"

section \<open>Sharing an alert with partner hospitals\<close>

record partnership =
  p_hospitalId :: objectId
  p_type :: string
  p_status :: string

record hospitalDoc =
  hospital_id :: objectId
  hospitalName :: string
  partnerships :: "partnership list"

record shareBody =
  sb_hospitalIds :: "string list"
  sb_message :: "string option"

record shareResult =
  sr_hospitalId :: string
  sr_success :: bool
  sr_reason :: "string option"

definition isPartner :: "hospitalDoc \<Rightarrow> string \<Rightarrow> bool" where
  "isPartner h hospitalId =
    list_ex (\<lambda>p. p_hospitalId p = hospitalId \<and> p_status p = ''active'' \<and>
                 p_type p \<in> set [''blood_sharing'', ''emergency_backup''])
      (partnerships h)"

definition alreadyShared :: "alert \<Rightarrow> string \<Rightarrow> bool" where
  "alreadyShared a hospitalId = list_ex (\<lambda>s. s_hospital s = hospitalId) (sharedWith a)"

text \<open>
  The sub-document that \<open>sharedWith.push({hospital, notes})\<close> creates: the schema gives
  \<open>sharedAt\<close>, \<open>unitsPromised\<close> and \<open>unitsDelivered\<close> a default and \<open>response\<close> none.
\<close>

definition pushedShare :: "date \<Rightarrow> string \<Rightarrow> string option \<Rightarrow> sharedEntry" where
  "pushedShare now hospitalId message =
    \<lparr>s_hospital = hospitalId, s_sharedAt = now, s_response = None,
     s_unitsPromised = 0, s_unitsDelivered = 0, s_notes = message\<rparr>"

text \<open>The loop over \<open>hospitalIds\<close>, with the alert and \<open>results\<close> as its state.\<close>

fun shareLoop ::
  "hospitalDoc \<Rightarrow> date \<Rightarrow> string option \<Rightarrow> string list \<Rightarrow> alert \<times> shareResult list
     \<Rightarrow> alert \<times> shareResult list" where
  "shareLoop h now message [] st = st"
| "shareLoop h now message (hospitalId # rest) (a, res) =
    (if \<not> isPartner h hospitalId then
       shareLoop h now message rest
         (a, res @ [\<lparr>sr_hospitalId = hospitalId, sr_success = False,
                     sr_reason = Some ''Hospital is not a partner''\<rparr>])
     else if alreadyShared a hospitalId then
       shareLoop h now message rest
         (a, res @ [\<lparr>sr_hospitalId = hospitalId, sr_success = False,
                     sr_reason = Some ''Alert already shared with this hospital''\<rparr>])
     else
       shareLoop h now message rest
         (a\<lparr>sharedWith := sharedWith a @ [pushedShare now hospitalId message]\<rparr>,
          res @ [\<lparr>sr_hospitalId = hospitalId, sr_success = True, sr_reason = None\<rparr>]))"

text \<open>
  \<open>POST /alerts/:alertId/share\<close>; \<open>h\<close> is \<open>req.hospital\<close>, \<open>alert\<close> what
  \<open>Alert.findOne\<close> returned for this id and hospital.
\<close>

definition shareAlert ::
  "validatorLib \<Rightarrow> date \<Rightarrow> hospitalDoc \<Rightarrow> alert option \<Rightarrow> shareBody
     \<Rightarrow> error + (alert \<times> shareResult list)" where
  "shareAlert lib now h alert body =
    (if sb_hospitalIds body = [] \<or> \<not> list_all (isMongoId lib) (sb_hospitalIds body)
       then Inl ValidationFailed
     else case alert of
       None \<Rightarrow> Inl (NotFound ''Alert not found'')
     | Some a \<Rightarrow>
       if \<not> allowSharing a then Inl (BadRequest ''Alert sharing is not allowed'')
       else
         (let st = shareLoop h now (map_option (trim lib) (sb_message body))
                     (sb_hospitalIds body) (a, [])
          in case save (fst st) of
               Inl e \<Rightarrow> Inl e
             | Inr a' \<Rightarrow> Inr (a', snd st)))"

record shareResponseBody =
  srb_response :: "string option"
  srb_unitsPromised :: "int option"
  srb_notes :: "string option"

definition shareResponseBodyValid :: "shareResponseBody \<Rightarrow> bool" where
  "shareResponseBodyValid body =
    ((case srb_response body of
        None \<Rightarrow> False
      | Some r \<Rightarrow> r \<in> set [''accepted'', ''declined'', ''partially_fulfilled'']) \<and>
     (case srb_unitsPromised body of None \<Rightarrow> True | Some n \<Rightarrow> n \<ge> 0))"

text \<open>The in-place update of the sharing entry that \<open>find\<close> returned: the first match.\<close>

fun updateShare ::
  "objectId \<Rightarrow> string \<Rightarrow> int \<Rightarrow> string option \<Rightarrow> sharedEntry list \<Rightarrow> sharedEntry list" where
  "updateShare hid r units notes [] = []"
| "updateShare hid r units notes (s # ss) =
    (if s_hospital s = hid
     then s\<lparr>s_response := Some r, s_unitsPromised := units, s_notes := notes\<rparr> # ss
     else s # updateShare hid r units notes ss)"

text \<open>
  \<open>POST /alerts/:alertId/respond-share\<close>; \<open>h\<close> is the responding hospital
  (\<open>req.hospital\<close>), \<open>alert\<close> what \<open>Alert.findById\<close> returned.
  \<open>req.body.unitsPromised || 0\<close> is 0 for a missing key and for 0.
\<close>

definition respondToShare ::
  "validatorLib \<Rightarrow> hospitalDoc \<Rightarrow> alert option \<Rightarrow> shareResponseBody \<Rightarrow> error + alert" where
  "respondToShare lib h alert body =
    (if \<not> shareResponseBodyValid body then Inl ValidationFailed
     else case alert of
       None \<Rightarrow> Inl (NotFound ''Alert not found'')
     | Some a \<Rightarrow>
       (case find (\<lambda>s. s_hospital s = hospital_id h) (sharedWith a) of
          None \<Rightarrow> Inl (NotFound ''Alert was not shared with your hospital'')
        | Some sharingEntry \<Rightarrow>
          if s_response sharingEntry \<noteq> Some ''pending''
            then Inl (BadRequest ''You have already responded to this alert'')
          else
            (case srb_response body of
               None \<Rightarrow> Inl ValidationFailed
             | Some r \<Rightarrow>
               save (a\<lparr>sharedWith :=
                        updateShare (hospital_id h) r
                          (case srb_unitsPromised body of None \<Rightarrow> 0 | Some n \<Rightarrow> n)
                          (map_option (trim lib) (srb_notes body)) (sharedWith a)\<rparr>))))"

section \<open>The eligibility rules as the specification words them\<close>

text \<open>
  The five rules of the evaluator in their stated order, each with the reason reported
  when it fails, and the evaluation in which the first failing rule decides. They are
  written from the specification, to be compared with \<open>checkEligibility\<close>.
\<close>

text \<open>
  The age in whole years, from the calendar alone: the number of birthdays that have
  come. The n-th birthday is the calendar date of birth moved n years on, and it has
  come when it is on or before today's date. A donor without a date of birth has no
  age and so none in the range.
\<close>

definition onOrBefore :: "calendarDate \<Rightarrow> calendarDate \<Rightarrow> bool" where
  "onOrBefore c1 c2 =
    (fst c1 < fst c2 \<or>
     (fst c1 = fst c2 \<and>
      (fst (snd c1) < fst (snd c2) \<or>
       (fst (snd c1) = fst (snd c2) \<and> snd (snd c1) \<le> snd (snd c2)))))"

definition anniversary :: "calendarDate \<Rightarrow> int \<Rightarrow> calendarDate" where
  "anniversary birth n = (fst birth + n, fst (snd birth), snd (snd birth))"

definition birthdaysPassed :: "calendarDate \<Rightarrow> calendarDate \<Rightarrow> int" where
  "birthdaysPassed birth today =
    int (length (filter (\<lambda>n. onOrBefore (anniversary birth n) today)
                   [1..fst today - fst birth]))"

definition wholeYears :: "timeZone \<Rightarrow> date \<Rightarrow> donor \<Rightarrow> int option" where
  "wholeYears zone now d =
    (case dateOfBirth d of
       None \<Rightarrow> None
     | Some birthDate \<Rightarrow>
         Some (birthdaysPassed (localDate zone birthDate) (localDate zone now)))"

definition ageInRange :: "timeZone \<Rightarrow> date \<Rightarrow> donor \<Rightarrow> bool" where
  "ageInRange zone now d =
    (case wholeYears zone now d of None \<Rightarrow> False | Some n \<Rightarrow> 18 \<le> n \<and> n \<le> 65)"

definition weightOk :: "donor \<Rightarrow> bool" where
  "weightOk d = (45 \<le> weight d)"

definition donationGapOk :: "date \<Rightarrow> donor \<Rightarrow> bool" where
  "donationGapOk now d =
    (case lastDonationDate d of None \<Rightarrow> True | Some l \<Rightarrow> 56 \<le> (now - l) div msPerDay)"

definition notDeferred :: "date \<Rightarrow> donor \<Rightarrow> bool" where
  "notDeferred now d = (case deferralUntil d of None \<Rightarrow> True | Some u \<Rightarrow> \<not> u > now)"

definition daysRemainingReason :: "date \<Rightarrow> donor \<Rightarrow> string option" where
  "daysRemainingReason now d =
    (case lastDonationDate d of
       None \<Rightarrow> None
     | Some l \<Rightarrow> Some (''Must wait '' @ showInt (56 - (now - l) div msPerDay) @
         '' more days since last donation''))"

definition specRules ::
  "timeZone \<Rightarrow> date \<Rightarrow> donor \<Rightarrow> (bool \<times> string option) list" where
  "specRules zone now d =
    [(ageInRange zone now d, Some ''Age not within eligible range (18-65)''),
     (weightOk d, Some ''Weight below minimum requirement (45kg)''),
     (donationGapOk now d, daysRemainingReason now d),
     (notDeferred now d, deferralReason d),
     (\<not> hasInfectiousDisease d, Some ''Medical condition prevents donation'')]"

definition firstFailureWins :: "(bool \<times> string option) list \<Rightarrow> eligibilityResult" where
  "firstFailureWins rules =
    (case find (\<lambda>rule. \<not> fst rule) rules of
       Some rule \<Rightarrow> \<lparr>eligible = False, reason = snd rule\<rparr>
     | None \<Rightarrow> \<lparr>eligible = True, reason = Some ''Eligible for donation''\<rparr>)"

section \<open>Example documents\<close>

text \<open>
  A donor born on 1990-01-01 who last donated at time 1700000000000 (2023-11-14), and
  a critical alert for three units of O- created at \<open>t0\<close>.
\<close>

definition exampleDonor :: donor where
  "exampleDonor =
    \<lparr>donor_id = ''64b000000000000000000001'', userEmail = ''asha@example.org'',
     firstName = ''Asha'', lastName = ''Rao'', dateOfBirth = Some 631152000000,
     phone = ''+91 98 7654'', bloodGroup = ''AB-'', weight = 70,
     hasInfectiousDisease = False, isEligible = True,
     lastDonationDate = Some 1700000000000, deferralReason = None, deferralUntil = None,
     notifyEmail = True, notifySms = True, notifyPush = True,
     maxTravelDistance = 10, emergencyOnly = False, donorIsActive = True,
     verificationStatus = ''verified''\<rparr>"

text \<open>
  Two hosts, one on UTC and one on Indian Standard Time (UTC + 5:30), and donors born
  on 2006-01-10 and on 1958-01-10 (at 00:00 UTC) who have not donated before.
\<close>

definition utcZone :: timeZone where
  "utcZone t = 0"

definition istZone :: timeZone where
  "istZone t = 19800000"

definition donorBorn2006 :: donor where
  "donorBorn2006 = exampleDonor\<lparr>dateOfBirth := Some 1136851200000, lastDonationDate := None\<rparr>"

definition donorBorn1958 :: donor where
  "donorBorn1958 = exampleDonor\<lparr>dateOfBirth := Some (- 377913600000), lastDonationDate := None\<rparr>"

definition exampleAlert :: "date \<Rightarrow> alert" where
  "exampleAlert t0 =
    newAlert t0 ''64a000000000000000000001''
      \<lparr>ad_hospital = ''64c000000000000000000001'', ad_bloodType = ''O-'',
       ad_urgencyLevel = ''critical'', ad_unitsNeeded = 3, ad_searchRadius = 50\<rparr>"

definition noAdditionalData :: additionalData where
  "noAdditionalData =
    \<lparr>x_donor = None, x_responseType = None, x_message = None, x_estimatedArrival = None,
     x_contactInfo = None, x_donationCompleted = None, x_donationDetails = None\<rparr>"

definition exampleLib :: validatorLib where
  "exampleLib = \<lparr>isISO8601 = (\<lambda>s. True), isMongoId = (\<lambda>s. length s = 24), trim = (\<lambda>s. s)\<rparr>"

definition exampleDetails :: donationDetails where
  "exampleDetails = \<lparr>dd_volume = Some 450, dd_date = None, dd_location = None, dd_notes = None\<rparr>"

definition exampleBody :: respondBody where
  "exampleBody =
    \<lparr>rb_responseType = Some ''interested'', rb_message = None, rb_estimatedArrival = None\<rparr>"

text \<open>The example alert after the example donor's response at time 2000.\<close>

definition exampleResponded :: alert where
  "exampleResponded =
    addResponse 2000 (donor_id exampleDonor) ''interested''
      (responseData exampleLib ''asha@example.org'' exampleDonor ''interested'' exampleBody)
      (exampleAlert 1000)"

definition exampleSender :: sender where
  "exampleSender = \<lparr>emailOk = (\<lambda>d. True), smsOk = (\<lambda>d. False)\<rparr>"

text \<open>
  Two hospitals with an active blood-sharing partnership recorded on the first, and the
  requests by which the first shares the example alert and the second answers.
\<close>

definition exampleHospitalA :: hospitalDoc where
  "exampleHospitalA =
    \<lparr>hospital_id = ''64c000000000000000000001'', hospitalName = ''City Hospital'',
     partnerships =
       [\<lparr>p_hospitalId = ''64c000000000000000000002'', p_type = ''blood_sharing'',
         p_status = ''active''\<rparr>]\<rparr>"

definition exampleHospitalB :: hospitalDoc where
  "exampleHospitalB =
    \<lparr>hospital_id = ''64c000000000000000000002'', hospitalName = ''County Hospital'',
     partnerships = []\<rparr>"

definition exampleShareBody :: shareBody where
  "exampleShareBody =
    \<lparr>sb_hospitalIds = [''64c000000000000000000002''], sb_message = Some ''O- needed''\<rparr>"

definition exampleShareResponse :: shareResponseBody where
  "exampleShareResponse =
    \<lparr>srb_response = Some ''accepted'', srb_unitsPromised = Some 2, srb_notes = None\<rparr>"

definition exampleShared :: alert where
  "exampleShared =
    (exampleAlert 1000)\<lparr>sharedWith :=
      [pushedShare 2000 ''64c000000000000000000002'' (Some ''O- needed'')]\<rparr>"

text \<open>
  The state of the sharing loop in which the entry that \<open>find\<close> returns for each
  hospital reported as shared has no \<open>response\<close>.
\<close>

definition sharedUnanswered :: "alert \<times> shareResult list \<Rightarrow> bool" where
  "sharedUnanswered st =
    list_all (\<lambda>r. sr_success r \<longrightarrow>
        (case find (\<lambda>s. s_hospital s = sr_hospitalId r) (sharedWith (fst st)) of
           None \<Rightarrow> False
         | Some e \<Rightarrow> s_response e = None))
      (snd st)"

section \<open>Rates of an alert\<close>

text \<open>
  A JavaScript number is an IEEE 754 binary64 value, and \<open>/\<close> and \<open>*\<close> round their exact
  result to the nearest such value, ties to the even significand. \<open>toDouble\<close> is that
  rounding on rationals: \<open>binaryExponent x\<close> is the exponent e with
  \<open>2 ^ e \<le> x < 2 ^ (e + 1)\<close>, and the result is the nearest multiple of
  \<open>2 ^ (e - 52)\<close>. Overflow and subnormal numbers are left out; quotients of counters
  and their products with 100 are far from both. \<open>Math.round\<close> is exact: the integer
  nearest to its argument, a tie going up.
\<close>

definition binaryExponent :: "rat \<Rightarrow> int" where
  "binaryExponent x =
    (let e0 = bitlen (fst (quotient_of x)) - bitlen (snd (quotient_of x))
     in if 2 powi e0 \<le> x then e0 else e0 - 1)"

definition roundHalfEven :: "rat \<Rightarrow> int" where
  "roundHalfEven y =
    (let f = \<lfloor>y\<rfloor>; r = y - of_int f
     in if r < 1 / 2 then f
        else if r > 1 / 2 then f + 1
        else if even f then f else f + 1)"

definition nearestDouble :: "rat \<Rightarrow> rat" where
  "nearestDouble x =
    (let ulp = 2 powi (binaryExponent x - 52)
     in of_int (roundHalfEven (x / ulp)) * ulp)"

definition toDouble :: "rat \<Rightarrow> rat" where
  "toDouble x =
    (if x = 0 then 0 else if x < 0 then - nearestDouble (- x) else nearestDouble x)"

definition jsDivide :: "rat \<Rightarrow> rat \<Rightarrow> rat" where
  "jsDivide a b = toDouble (a / b)"

definition jsMultiply :: "rat \<Rightarrow> rat \<Rightarrow> rat" where
  "jsMultiply a b = toDouble (a * b)"

definition mathRound :: "rat \<Rightarrow> int" where
  "mathRound x = \<lfloor>x + 1 / 2\<rfloor>"


text \<open>\<open>getResponseRate\<close> and \<open>getConversionRate\<close>.\<close>

definition getResponseRate :: "alert \<Rightarrow> int" where
  "getResponseRate a =
    (if sent (notifications a) = 0 then 0
     else mathRound
       (jsMultiply
          (jsDivide (of_int (responded (notifications a))) (of_int (sent (notifications a))))
          100))"

definition getConversionRate :: "alert \<Rightarrow> int" where
  "getConversionRate a =
    (let totalResponses = int (length (responses a))
     in if totalResponses = 0 then 0
        else
          (let donations = int (length (filter r_donationCompleted (responses a)))
           in mathRound (jsMultiply (jsDivide (of_int donations) (of_int totalResponses)) 100)))"

text \<open>The example alert with given counters of notifications sent and responded to.\<close>

definition exampleCounted :: "int \<Rightarrow> int \<Rightarrow> alert" where
  "exampleCounted s r =
    (exampleAlert 1000)\<lparr>notifications := \<lparr>sent = s, opened = 0, responded = r, sentTo = []\<rparr>\<rparr>"

text \<open>
  The example alert with k responses whose donation was completed followed by m
  responses without a donation.
\<close>

definition exampleResponse :: "bool \<Rightarrow> response" where
  "exampleResponse completed =
    \<lparr>r_donor = ''64b000000000000000000001'', r_responseType = ''committed'',
     r_message = None, r_contactInfo = None, r_estimatedArrival = None,
     r_donationCompleted = completed, r_donationDetails = None, r_responseTime = None,
     r_timestamp = 2000\<rparr>"

definition exampleConverted :: "nat \<Rightarrow> nat \<Rightarrow> alert" where
  "exampleConverted k m =
    (exampleAlert 1000)\<lparr>responses :=
      replicate k (exampleResponse True) @ replicate m (exampleResponse False)\<rparr>"

section \<open>The compatibility tables against the standard chart\<close>

lemmas compat_defs =
  bloodTypes_def lookupOrEmpty_def compatibleDonorTypes_def compatibleDonorTypesTable_def
  compatibleBloodTypes_def compatibleBloodTypesTable_def
  getCompatibleBloodTypes_def compatibilityTable_def

lemmas antigen_defs = standardCanDonate_def hasA_def hasB_def rhPositive_def

lemma chart_cells:
  "\<forall>r\<in>set bloodTypes. \<forall>d\<in>set bloodTypes.
     (d \<in> set (compatibleDonorTypes r)) = standardCanDonate d r"
  by (simp add: compat_defs antigen_defs)

lemma chart_closed:
  "\<forall>r\<in>set bloodTypes. \<forall>d\<in>set (compatibleDonorTypes r). d \<in> set bloodTypes"
  by (simp add: compat_defs)

lemma chart_distinct: "\<forall>r\<in>set bloodTypes. distinct (compatibleDonorTypes r)"
  by (simp add: compat_defs)

lemma chart_O_neg: "\<forall>r\<in>set bloodTypes. ''O-'' \<in> set (compatibleDonorTypes r)"
  by (simp add: compat_defs)

lemma chart_AB_pos: "\<forall>d\<in>set bloodTypes. d \<in> set (compatibleDonorTypes ''AB+'')"
  by (simp add: compat_defs)

lemma chart_O_pos:
  "\<forall>r\<in>set bloodTypes. (''O+'' \<in> set (compatibleDonorTypes r)) = rhPositive r"
  by (simp add: compat_defs antigen_defs)

lemma chart_A:
  "\<forall>r\<in>set bloodTypes. \<forall>d\<in>set [''A+'', ''A-''].
     d \<in> set (compatibleDonorTypes r) \<longrightarrow> r \<in> set [''A+'', ''A-'', ''AB+'', ''AB-'']"
  by (simp add: compat_defs)

lemma chart_B:
  "\<forall>r\<in>set bloodTypes. \<forall>d\<in>set [''B+'', ''B-''].
     d \<in> set (compatibleDonorTypes r) \<longrightarrow> r \<in> set [''B+'', ''B-'', ''AB+'', ''AB-'']"
  by (simp add: compat_defs)

lemma chart_AB_neg:
  "\<forall>r\<in>set bloodTypes.
     (''AB-'' \<in> set (compatibleDonorTypes r)) = (r \<in> set [''AB+'', ''AB-''])"
  by (simp add: compat_defs)

lemma chart_copy: "\<forall>r\<in>set bloodTypes. compatibleBloodTypes r = compatibleDonorTypes r"
  by (simp add: compat_defs)

text \<open>
  Claim C4. For each of the 8 alert blood types, \<open>compatibleDonorTypes\<close> is the standard
  ABO/Rh chart: a donor type is listed for a recipient type exactly when the donor
  carries no antigen the recipient lacks. The listed types are blood types, none twice.
  O- is in every set; the set for AB+ holds all 8 types; O+ is in the set of exactly the
  Rh-positive recipients; A donors appear only for A and AB recipients, B donors only
  for B and AB recipients, AB- donors exactly for AB recipients. The copy of the table
  in \<open>Alert.checkDonorEligibility\<close> is the same.
\<close>

theorem compatibleDonorTypes_standard_chart:
  "(\<forall>r\<in>set bloodTypes. \<forall>d\<in>set bloodTypes.
      (d \<in> set (compatibleDonorTypes r)) = standardCanDonate d r) \<and>
   (\<forall>r\<in>set bloodTypes. \<forall>d\<in>set (compatibleDonorTypes r). d \<in> set bloodTypes) \<and>
   (\<forall>r\<in>set bloodTypes. distinct (compatibleDonorTypes r)) \<and>
   (\<forall>r\<in>set bloodTypes. ''O-'' \<in> set (compatibleDonorTypes r)) \<and>
   (\<forall>d\<in>set bloodTypes. d \<in> set (compatibleDonorTypes ''AB+'')) \<and>
   (\<forall>r\<in>set bloodTypes. (''O+'' \<in> set (compatibleDonorTypes r)) = rhPositive r) \<and>
   (\<forall>r\<in>set bloodTypes. \<forall>d\<in>set [''A+'', ''A-''].
      d \<in> set (compatibleDonorTypes r) \<longrightarrow> r \<in> set [''A+'', ''A-'', ''AB+'', ''AB-'']) \<and>
   (\<forall>r\<in>set bloodTypes. \<forall>d\<in>set [''B+'', ''B-''].
      d \<in> set (compatibleDonorTypes r) \<longrightarrow> r \<in> set [''B+'', ''B-'', ''AB+'', ''AB-'']) \<and>
   (\<forall>r\<in>set bloodTypes.
      (''AB-'' \<in> set (compatibleDonorTypes r)) = (r \<in> set [''AB+'', ''AB-''])) \<and>
   (\<forall>r\<in>set bloodTypes. compatibleBloodTypes r = compatibleDonorTypes r)"
  using chart_cells chart_closed chart_distinct chart_O_neg chart_AB_pos chart_O_pos
    chart_A chart_B chart_AB_neg chart_copy
  by blast

text \<open>The chart at recipient AB-: B- may donate, A+ may not; O- may donate to B-.\<close>

theorem compatibleDonorTypes_standard_chart_witness:
  "''B-'' \<in> set bloodTypes \<and> ''AB-'' \<in> set bloodTypes \<and> ''A+'' \<in> set bloodTypes \<and>
   ''B-'' \<in> set (compatibleDonorTypes ''AB-'') \<and> standardCanDonate ''B-'' ''AB-'' \<and>
   ''A+'' \<notin> set (compatibleDonorTypes ''AB-'') \<and> \<not> standardCanDonate ''A+'' ''AB-'' \<and>
   ''O-'' \<in> set (compatibleDonorTypes ''B-'')"
proof -
  note t = compatibleDonorTypes_standard_chart
  have m: "''B-'' \<in> set bloodTypes" "''AB-'' \<in> set bloodTypes" "''A+'' \<in> set bloodTypes"
    by (simp_all add: bloodTypes_def)
  have c: "compatibleDonorTypes ''AB-'' = [''A-'', ''B-'', ''AB-'', ''O-'']"
    by (simp add: compatibleDonorTypes_def compatibleDonorTypesTable_def lookupOrEmpty_def)
  have s1: "standardCanDonate ''B-'' ''AB-''"
    using t [THEN conjunct1, rule_format, OF m(2) m(1)] c by simp
  have s2: "\<not> standardCanDonate ''A+'' ''AB-''"
    using t [THEN conjunct1, rule_format, OF m(2) m(3)] c by simp
  have s3: "''O-'' \<in> set (compatibleDonorTypes ''B-'')"
    using t [THEN conjunct2, THEN conjunct2, THEN conjunct2, THEN conjunct1, rule_format, OF m(1)]
    by simp
  show ?thesis using m c s1 s2 s3 by simp
qed

text \<open>
  Claim C5. The donor-direction table of \<open>getCompatibleBloodTypes\<close> is the transpose of
  the alert-direction table: for donor type d and alert type a among the 8 types, a is
  listed for d exactly when d is listed for a; and it lists blood types only.
\<close>

theorem donor_table_is_inverse:
  "(\<forall>d\<in>set bloodTypes. \<forall>a\<in>set bloodTypes.
      (a \<in> set (getCompatibleBloodTypes d)) = (d \<in> set (compatibleDonorTypes a))) \<and>
   (\<forall>d\<in>set bloodTypes. \<forall>a\<in>set (getCompatibleBloodTypes d). a \<in> set bloodTypes)"
  by (simp add: compat_defs)

text \<open>The cells (O+, B+) and (O+, B-) of the two tables.\<close>

theorem donor_table_is_inverse_witness:
  "''O+'' \<in> set bloodTypes \<and> ''B+'' \<in> set bloodTypes \<and> ''B-'' \<in> set bloodTypes \<and>
   ''B+'' \<in> set (getCompatibleBloodTypes ''O+'') \<and> ''O+'' \<in> set (compatibleDonorTypes ''B+'') \<and>
   ''B-'' \<notin> set (getCompatibleBloodTypes ''O+'') \<and> ''O+'' \<notin> set (compatibleDonorTypes ''B-'')"
proof -
  have m: "''O+'' \<in> set bloodTypes" "''B+'' \<in> set bloodTypes" "''B-'' \<in> set bloodTypes"
    by (simp_all add: bloodTypes_def)
  have g: "getCompatibleBloodTypes ''O+'' = [''A+'', ''B+'', ''AB+'', ''O+'']"
    by (simp add: getCompatibleBloodTypes_def compatibilityTable_def lookupOrEmpty_def)
  note t = donor_table_is_inverse
  have s1: "''O+'' \<in> set (compatibleDonorTypes ''B+'')"
    using t [THEN conjunct1, rule_format, OF m(1) m(2)] g by simp
  have s2: "''O+'' \<notin> set (compatibleDonorTypes ''B-'')"
    using t [THEN conjunct1, rule_format, OF m(1) m(3)] g by simp
  show ?thesis using m g s1 s2 by simp
qed

section \<open>The eligibility evaluator\<close>

lemma anniversary_come:
  fixes yb mb db yt mt dt n :: int
  shows "onOrBefore (anniversary (yb, mb, db) n) (yt, mt, dt) =
     (n \<le> (if mt - mb < 0 \<or> (mt - mb = 0 \<and> dt < db) then yt - yb - 1 else yt - yb))"
  by (auto simp: onOrBefore_def anniversary_def)

lemma count_upto:
  fixes A K :: int
  assumes "A = K \<or> A = K - 1"
  shows "int (length (filter (\<lambda>n. n \<le> A) [1..K])) = max 0 A"
proof (cases "A = K")
  case True
  then have "filter (\<lambda>n. n \<le> A) [1..K] = [1..K]" by (simp add: filter_id_conv)
  then show ?thesis using True by simp
next
  case False
  with assms have A: "A = K - 1" by simp
  show ?thesis
  proof (cases "1 \<le> K")
    case True
    then have "[1..K] = [1..K - 1] @ [K]" by (rule upto_rec2)
    then have "filter (\<lambda>n. n \<le> A) [1..K] = [1..K - 1]"
      using A by (simp add: filter_id_conv)
    then show ?thesis using A True by simp
  next
    case False
    then show ?thesis using A by simp
  qed
qed

lemma birthdaysPassed_code:
  fixes yb mb db yt mt dt :: int
  shows "birthdaysPassed (yb, mb, db) (yt, mt, dt) =
     max 0 (if mt - mb < 0 \<or> (mt - mb = 0 \<and> dt < db) then yt - yb - 1 else yt - yb)"
  unfolding birthdaysPassed_def anniversary_come
  by (simp only: fst_conv) (rule count_upto, simp)

lemma age_code:
  "age zone today d =
    (case dateOfBirth d of
       None \<Rightarrow> None
     | Some b \<Rightarrow>
         Some (if fst (snd (localDate zone today)) - fst (snd (localDate zone b)) < 0 \<or>
                  (fst (snd (localDate zone today)) - fst (snd (localDate zone b)) = 0 \<and>
                   snd (snd (localDate zone today)) < snd (snd (localDate zone b)))
               then fst (localDate zone today) - fst (localDate zone b) - 1
               else fst (localDate zone today) - fst (localDate zone b)))"
  by (simp add: age_def getFullYear_def getMonth_def getDate_def Let_def split: option.splits)

lemma wholeYears_age:
  "wholeYears zone now d = map_option (max 0) (age zone now d)"
proof (cases "dateOfBirth d")
  case None
  then show ?thesis by (simp add: wholeYears_def age_def)
next
  case (Some b)
  obtain yb mb db where b: "localDate zone b = (yb, mb, db)" by (cases "localDate zone b")
  obtain yt mt dt where t: "localDate zone now = (yt, mt, dt)" by (cases "localDate zone now")
  show ?thesis
    by (simp add: age_code wholeYears_def Some b t birthdaysPassed_code)
qed

lemma ageInRange_code:
  "ageInRange zone now d =
     (18 \<le> toNumber (age zone now d) \<and> toNumber (age zone now d) \<le> 65)"
  unfolding ageInRange_def wholeYears_age
  by (cases "age zone now d") (auto simp: toNumber_def)

lemma age_whole_years:
  assumes "age zone now d = Some n"
  shows "\<exists>b. dateOfBirth d = Some b \<and>
     onOrBefore (anniversary (localDate zone b) n) (localDate zone now) \<and>
     \<not> onOrBefore (anniversary (localDate zone b) (n + 1)) (localDate zone now)"
proof -
  from assms obtain b where b: "dateOfBirth d = Some b"
    by (cases "dateOfBirth d") (simp_all add: age_def)
  obtain yb mb db where lb: "localDate zone b = (yb, mb, db)" by (cases "localDate zone b")
  obtain yt mt dt where lt: "localDate zone now = (yt, mt, dt)" by (cases "localDate zone now")
  from assms have n: "n = (if mt - mb < 0 \<or> (mt - mb = 0 \<and> dt < db) then yt - yb - 1 else yt - yb)"
    by (simp add: age_code b lb lt split: if_splits)
  show ?thesis
    using n by (simp add: b lb lt anniversary_come)
qed

lemma ageInRange_birthdays:
  assumes "dateOfBirth d = Some b"
  shows "ageInRange zone now d =
     (onOrBefore (anniversary (localDate zone b) 18) (localDate zone now) \<and>
      \<not> onOrBefore (anniversary (localDate zone b) 66) (localDate zone now))"
proof -
  obtain yb mb db where lb: "localDate zone b = (yb, mb, db)" by (cases "localDate zone b")
  obtain yt mt dt where lt: "localDate zone now = (yt, mt, dt)" by (cases "localDate zone now")
  show ?thesis
    by (simp add: ageInRange_code age_code assms lb lt anniversary_come toNumber_def) linarith
qed

lemma le_div_pos_iff:
  fixes k x m :: int
  assumes m: "0 < m"
  shows "(k \<le> x div m) = (k * m \<le> x)"
proof
  assume "k \<le> x div m"
  with m have "k * m \<le> (x div m) * m" by (simp add: mult_right_mono)
  also have "\<dots> = x - x mod m" by (simp add: minus_mod_eq_div_mult)
  also from m have "\<dots> \<le> x" by simp
  finally show "k * m \<le> x" .
next
  assume "k * m \<le> x"
  with m have "(k * m) div m \<le> x div m" by (rule_tac zdiv_mono1) simp_all
  with m show "k \<le> x div m" by simp
qed

lemma gap_days: "(56 \<le> (x::int) div msPerDay) = (56 * msPerDay \<le> x)"
  by (rule le_div_pos_iff) (simp add: msPerDay_def)

lemma gap_55:
  assumes "55 * msPerDay \<le> (x::int)" "x < 56 * msPerDay"
  shows "x div msPerDay = 55"
proof -
  have m: "0 < msPerDay" by (simp add: msPerDay_def)
  have "55 \<le> x div msPerDay" using assms(1) le_div_pos_iff [OF m, of 55 x] by simp
  moreover have "\<not> 56 \<le> x div msPerDay" using assms(2) le_div_pos_iff [OF m, of 56 x] by simp
  ultimately show ?thesis by simp
qed

lemma checkEligibility_refines:
  "checkEligibility zone now d = firstFailureWins (specRules zone now d)"
  by (simp add: checkEligibility_def deferralAndMedical_def firstFailureWins_def specRules_def
      ageInRange_code weightOk_def donationGapOk_def notDeferred_def daysRemainingReason_def
      Let_def not_le not_less split: option.splits)

lemma eligible_iff:
  "eligible (checkEligibility zone now d) =
     (ageInRange zone now d \<and> weightOk d \<and> donationGapOk now d \<and> notDeferred now d \<and>
      \<not> hasInfectiousDisease d)"
  by (simp add: checkEligibility_def deferralAndMedical_def
      ageInRange_code weightOk_def donationGapOk_def notDeferred_def
      Let_def not_le not_less split: option.splits)

lemma boundary_eligible:
  assumes "ageInRange zone now d" "weightOk d" "notDeferred now d" "\<not> hasInfectiousDisease d"
    "lastDonationDate d = Some l"
  shows "eligible (checkEligibility zone now d) = (56 * msPerDay \<le> now - l)"
  using assms by (simp add: eligible_iff donationGapOk_def gap_days)

lemma boundary_wait_one:
  assumes "ageInRange zone now d" "weightOk d" "lastDonationDate d = Some l"
    "55 * msPerDay \<le> now - l" "now - l < 56 * msPerDay"
  shows "checkEligibility zone now d =
    \<lparr>eligible = False, reason = Some ''Must wait 1 more days since last donation''\<rparr>"
proof -
  have g: "(now - l) div msPerDay = 55" using assms(4,5) by (rule gap_55)
  have s: "showInt 1 = ''1''" by (simp add: showInt_def digitChar_def)
  from assms(1) have a: "\<not> toNumber (age zone now d) < 18" "\<not> toNumber (age zone now d) > 65"
    by (simp_all add: ageInRange_code)
  from a assms(2,3) g s show ?thesis
    by (simp add: checkEligibility_def weightOk_def not_le not_less)
qed

lemma no_birth_date:
  assumes "dateOfBirth d = None"
  shows "checkEligibility zone now d =
    \<lparr>eligible = False, reason = Some ''Age not within eligible range (18-65)''\<rparr>"
  using assms by (simp add: checkEligibility_def age_def toNumber_def)

text \<open>
  Claim C6. \<open>checkEligibility\<close> applies the five rules in the stated order and the first
  failing rule decides the result and its reason: age in 18..65, weight at least 45,
  at least 56 whole days since \<open>lastDonationDate\<close> when it is set, no deferral with
  \<open>until\<close> later than now, \<open>hasInfectiousDisease\<close> false. A donor is eligible exactly
  when all five hold. The age is the number of whole years on the host's local
  calendar: the age virtual returns n exactly when the n-th birthday has come and the
  next has not, so the age is in range exactly from the 18th birthday until the day
  before the 66th; a donor without a date of birth fails the age rule. At the donation
  gap: a donor who passes the other rules is eligible exactly from 56 whole days after
  the last donation on, and between 55 and 56 days the result is ineligible with one
  more day to wait.
\<close>

theorem checkEligibility_first_failure_wins:
  "checkEligibility zone now d = firstFailureWins (specRules zone now d) \<and>
   eligible (checkEligibility zone now d) =
     (ageInRange zone now d \<and> weightOk d \<and> donationGapOk now d \<and> notDeferred now d \<and>
      \<not> hasInfectiousDisease d) \<and>
   (ageInRange zone now d \<and> weightOk d \<and> notDeferred now d \<and> \<not> hasInfectiousDisease d \<and>
    lastDonationDate d = Some l \<longrightarrow>
      eligible (checkEligibility zone now d) = (56 * msPerDay \<le> now - l)) \<and>
   (ageInRange zone now d \<and> weightOk d \<and> lastDonationDate d = Some l \<and>
    55 * msPerDay \<le> now - l \<and> now - l < 56 * msPerDay \<longrightarrow>
      checkEligibility zone now d =
        \<lparr>eligible = False, reason = Some ''Must wait 1 more days since last donation''\<rparr>) \<and>
   (age zone now d = Some n \<longrightarrow>
      (\<exists>b. dateOfBirth d = Some b \<and>
           onOrBefore (anniversary (localDate zone b) n) (localDate zone now) \<and>
           \<not> onOrBefore (anniversary (localDate zone b) (n + 1)) (localDate zone now))) \<and>
   wholeYears zone now d = map_option (max 0) (age zone now d) \<and>
   (dateOfBirth d = Some b \<longrightarrow>
      ageInRange zone now d =
        (onOrBefore (anniversary (localDate zone b) 18) (localDate zone now) \<and>
         \<not> onOrBefore (anniversary (localDate zone b) 66) (localDate zone now))) \<and>
   (dateOfBirth d = None \<longrightarrow>
      checkEligibility zone now d =
        \<lparr>eligible = False, reason = Some ''Age not within eligible range (18-65)''\<rparr>)"
  using checkEligibility_refines [of zone now d] eligible_iff [of zone now d]
    boundary_eligible [of zone now d l] boundary_wait_one [of zone now d l]
    age_whole_years [of zone now d n] wholeYears_age [of zone now d]
    ageInRange_birthdays [of d b zone now] no_birth_date [of d zone now]
  by blast

lemma civil_birth: "localDate utcZone 631152000000 = (1990, 0, 1)"
  by code_simp

lemma civil_day56: "localDate utcZone 1704838400000 = (2024, 0, 9)"
  by code_simp

lemma civil_day55: "localDate utcZone 1704752000000 = (2024, 0, 8)"
  by code_simp

lemma exampleDonor_birth: "dateOfBirth exampleDonor = Some 631152000000"
  by (simp add: exampleDonor_def)

lemma exampleDonor_range56: "ageInRange utcZone 1704838400000 exampleDonor"
  by (simp add: ageInRange_def wholeYears_def exampleDonor_birth civil_birth civil_day56
      birthdaysPassed_def onOrBefore_def anniversary_def)
     code_simp

lemma exampleDonor_range55: "ageInRange utcZone 1704752000000 exampleDonor"
  by (simp add: ageInRange_def wholeYears_def exampleDonor_birth civil_birth civil_day55
      birthdaysPassed_def onOrBefore_def anniversary_def)
     code_simp


lemma ageInRange_eval:
  assumes "dateOfBirth d = Some b" "localDate zone b = cb" "localDate zone now = cn"
  shows "ageInRange zone now d = (18 \<le> birthdaysPassed cb cn \<and> birthdaysPassed cb cn \<le> 65)"
  using assms by (simp add: ageInRange_def wholeYears_def)

lemma age_eval:
  assumes "dateOfBirth d = Some b" "localDate zone b = (yb, mb, db)"
    "localDate zone now = (yt, mt, dt)"
  shows "age zone now d =
    Some (if mt - mb < 0 \<or> (mt - mb = 0 \<and> dt < db) then yt - yb - 1 else yt - yb)"
  using assms by (simp add: age_code)

lemma local_2006: "localDate istZone 1136851200000 = (2006, 0, 10)"
  "localDate utcZone 1136851200000 = (2006, 0, 10)"
  by code_simp+

lemma local_1958: "localDate istZone (- 377913600000) = (1958, 0, 10)"
  "localDate utcZone (- 377913600000) = (1958, 0, 10)"
  by code_simp+

lemma local_now: "localDate istZone 1704830400000 = (2024, 0, 10)"
  "localDate utcZone 1704830400000 = (2024, 0, 9)"
  by code_simp+

lemma birthdays_counted:
  "birthdaysPassed (2006, 0, 10) (2024, 0, 10) = 18"
  "birthdaysPassed (2006, 0, 10) (2024, 0, 9) = 17"
  "birthdaysPassed (1958, 0, 10) (2024, 0, 10) = 66"
  "birthdaysPassed (1958, 0, 10) (2024, 0, 9) = 65"
  by code_simp+

lemma born_fields:
  "dateOfBirth donorBorn2006 = Some 1136851200000"
  "dateOfBirth donorBorn1958 = Some (- 377913600000)"
  "weightOk donorBorn2006" "weightOk donorBorn1958"
  "donationGapOk now donorBorn2006" "donationGapOk now donorBorn1958"
  "notDeferred now donorBorn2006" "notDeferred now donorBorn1958"
  "\<not> hasInfectiousDisease donorBorn2006" "\<not> hasInfectiousDisease donorBorn1958"
  by (simp_all add: donorBorn2006_def donorBorn1958_def exampleDonor_def weightOk_def
      donationGapOk_def notDeferred_def)

text \<open>
  The example donor, 34 years old and 70 kg, on a UTC host: eligible exactly 56 days
  after the last donation, not eligible at 55 days. At 2024-01-09 20:00 UTC, which is
  2024-01-10 01:30 in India: the donor born on 2006-01-10 is 18 and eligible on the
  Indian host, 17 and refused for age on the UTC host; the donor born on 1958-01-10 is
  66 and refused for age on the Indian host, 65 and eligible on the UTC host.
\<close>

theorem checkEligibility_first_failure_wins_witness:
  "ageInRange utcZone 1704838400000 exampleDonor \<and>
   ageInRange utcZone 1704752000000 exampleDonor \<and>
   weightOk exampleDonor \<and> notDeferred 1704838400000 exampleDonor \<and>
   \<not> hasInfectiousDisease exampleDonor \<and>
   lastDonationDate exampleDonor = Some 1700000000000 \<and>
   1704838400000 - 1700000000000 = 56 * msPerDay \<and>
   1704752000000 - 1700000000000 = 55 * msPerDay \<and>
   eligible (checkEligibility utcZone 1704838400000 exampleDonor) \<and>
   checkEligibility utcZone 1704752000000 exampleDonor =
     \<lparr>eligible = False, reason = Some ''Must wait 1 more days since last donation''\<rparr> \<and>
   age istZone 1704830400000 donorBorn2006 = Some 18 \<and>
   eligible (checkEligibility istZone 1704830400000 donorBorn2006) \<and>
   age utcZone 1704830400000 donorBorn2006 = Some 17 \<and>
   checkEligibility utcZone 1704830400000 donorBorn2006 =
     \<lparr>eligible = False, reason = Some ''Age not within eligible range (18-65)''\<rparr> \<and>
   age istZone 1704830400000 donorBorn1958 = Some 66 \<and>
   checkEligibility istZone 1704830400000 donorBorn1958 =
     \<lparr>eligible = False, reason = Some ''Age not within eligible range (18-65)''\<rparr> \<and>
   age utcZone 1704830400000 donorBorn1958 = Some 65 \<and>
   eligible (checkEligibility utcZone 1704830400000 donorBorn1958)"
proof -
  note t56 = checkEligibility_first_failure_wins
    [where zone = utcZone and now = 1704838400000 and d = exampleDonor and l = 1700000000000]
  note t55 = checkEligibility_first_failure_wins
    [where zone = utcZone and now = 1704752000000 and d = exampleDonor and l = 1700000000000]
  note i06 = checkEligibility_first_failure_wins
    [where zone = istZone and now = 1704830400000 and d = donorBorn2006]
  note u06 = checkEligibility_first_failure_wins
    [where zone = utcZone and now = 1704830400000 and d = donorBorn2006]
  note i58 = checkEligibility_first_failure_wins
    [where zone = istZone and now = 1704830400000 and d = donorBorn1958]
  note u58 = checkEligibility_first_failure_wins
    [where zone = utcZone and now = 1704830400000 and d = donorBorn1958]
  have a: "ageInRange utcZone 1704838400000 exampleDonor"
    "ageInRange utcZone 1704752000000 exampleDonor"
    by (rule exampleDonor_range56, rule exampleDonor_range55)
  have w: "weightOk exampleDonor" "notDeferred 1704838400000 exampleDonor"
    "\<not> hasInfectiousDisease exampleDonor"
    "lastDonationDate exampleDonor = Some 1700000000000"
    by (simp_all add: weightOk_def notDeferred_def exampleDonor_def)
  have g: "(1704838400000::int) - 1700000000000 = 56 * msPerDay"
    "(1704752000000::int) - 1700000000000 = 55 * msPerDay"
    by (simp_all add: msPerDay_def)
  have e56: "eligible (checkEligibility utcZone 1704838400000 exampleDonor)"
    using t56 [THEN conjunct2, THEN conjunct2, THEN conjunct1] a(1) w g(1) by simp
  have e55: "checkEligibility utcZone 1704752000000 exampleDonor =
     \<lparr>eligible = False, reason = Some ''Must wait 1 more days since last donation''\<rparr>"
    using t55 [THEN conjunct2, THEN conjunct2, THEN conjunct2, THEN conjunct1] a(2) w(1,4) g(2)
    by (simp add: msPerDay_def)
  have r: "ageInRange istZone 1704830400000 donorBorn2006"
    "\<not> ageInRange utcZone 1704830400000 donorBorn2006"
    "\<not> ageInRange istZone 1704830400000 donorBorn1958"
    "ageInRange utcZone 1704830400000 donorBorn1958"
    by (simp_all add: ageInRange_eval [OF born_fields(1) local_2006(1) local_now(1)]
        ageInRange_eval [OF born_fields(1) local_2006(2) local_now(2)]
        ageInRange_eval [OF born_fields(2) local_1958(1) local_now(1)]
        ageInRange_eval [OF born_fields(2) local_1958(2) local_now(2)] birthdays_counted)
  have ages: "age istZone 1704830400000 donorBorn2006 = Some 18"
    "age utcZone 1704830400000 donorBorn2006 = Some 17"
    "age istZone 1704830400000 donorBorn1958 = Some 66"
    "age utcZone 1704830400000 donorBorn1958 = Some 65"
    by (simp_all add: age_eval [OF born_fields(1) local_2006(1) local_now(1)]
        age_eval [OF born_fields(1) local_2006(2) local_now(2)]
        age_eval [OF born_fields(2) local_1958(1) local_now(1)]
        age_eval [OF born_fields(2) local_1958(2) local_now(2)])
  have e18: "eligible (checkEligibility istZone 1704830400000 donorBorn2006)"
    using i06 [THEN conjunct2, THEN conjunct1] r(1) born_fields by simp
  have e65: "eligible (checkEligibility utcZone 1704830400000 donorBorn1958)"
    using u58 [THEN conjunct2, THEN conjunct1] r(4) born_fields by simp
  have f17: "checkEligibility utcZone 1704830400000 donorBorn2006 =
     \<lparr>eligible = False, reason = Some ''Age not within eligible range (18-65)''\<rparr>"
    using u06 [THEN conjunct1] r(2) by (simp add: firstFailureWins_def specRules_def)
  have f66: "checkEligibility istZone 1704830400000 donorBorn1958 =
     \<lparr>eligible = False, reason = Some ''Age not within eligible range (18-65)''\<rparr>"
    using i58 [THEN conjunct1] r(3) by (simp add: firstFailureWins_def specRules_def)
  show ?thesis using a w g e56 e55 ages e18 e65 f17 f66 by simp
qed

section \<open>Recording responses\<close>

lemma addResponse_donated:
  "unitsCollected (addResponse now donorId ''donated'' (x\<lparr>x_donationDetails := Some dd\<rparr>) a) =
     unitsCollected a + 1 \<and>
   status (addResponse now donorId ''donated'' (x\<lparr>x_donationDetails := Some dd\<rparr>) a) =
     (if unitsCollected a + 1 \<ge> unitsNeeded a then ''fulfilled''
      else if unitsCollected a + 1 > 0 then ''partially_fulfilled''
      else status a) \<and>
   unitsNeeded (addResponse now donorId ''donated'' (x\<lparr>x_donationDetails := Some dd\<rparr>) a) =
     unitsNeeded a \<and>
   expiresAt (addResponse now donorId ''donated'' (x\<lparr>x_donationDetails := Some dd\<rparr>) a) =
     expiresAt a"
  by (simp add: addResponse_def Let_def)

lemma newAlert_fields:
  "unitsCollected (newAlert t0 i data) = 0"
  "unitsNeeded (newAlert t0 i data) = ad_unitsNeeded data"
  "status (newAlert t0 i data) = ''active''"
  "expiresAt (newAlert t0 i data) = defaultExpiresAt t0 (ad_urgencyLevel data)"
  "responses (newAlert t0 i data) = []"
  by (simp_all add: newAlert_def)

lemma defaultExpiresAt_critical: "defaultExpiresAt t0 ''critical'' = t0 + 24 * 60 * 60 * 1000"
  by (simp add: defaultExpiresAt_def)

lemma defaultExpiresAt_other:
  "u \<noteq> ''critical'' \<Longrightarrow> defaultExpiresAt t0 u = t0 + 72 * 60 * 60 * 1000"
  by (simp add: defaultExpiresAt_def)

lemma scenario_steps:
  fixes a0 :: alert
  assumes n0: "unitsNeeded a0 = 3" "unitsCollected a0 = 0"
  shows "(let a1 = addResponse t1 d1 ''donated'' (x1\<lparr>x_donationDetails := Some dd1\<rparr>) a0;
         a2 = addResponse t2 d2 ''donated'' (x2\<lparr>x_donationDetails := Some dd2\<rparr>) a1;
         a3 = addResponse t3 d3 ''donated'' (x3\<lparr>x_donationDetails := Some dd3\<rparr>) a2
     in unitsCollected a1 = 1 \<and> status a1 = ''partially_fulfilled'' \<and>
        unitsCollected a2 = 2 \<and> status a2 = ''partially_fulfilled'' \<and>
        unitsCollected a3 = 3 \<and> status a3 = ''fulfilled'')"
proof -
  define a1 where "a1 = addResponse t1 d1 ''donated'' (x1\<lparr>x_donationDetails := Some dd1\<rparr>) a0"
  define a2 where "a2 = addResponse t2 d2 ''donated'' (x2\<lparr>x_donationDetails := Some dd2\<rparr>) a1"
  define a3 where "a3 = addResponse t3 d3 ''donated'' (x3\<lparr>x_donationDetails := Some dd3\<rparr>) a2"
  have s1: "unitsCollected a1 = 1" "status a1 = ''partially_fulfilled''" "unitsNeeded a1 = 3"
    using n0 by (simp_all add: a1_def addResponse_donated)
  have s2: "unitsCollected a2 = 2" "status a2 = ''partially_fulfilled''" "unitsNeeded a2 = 3"
    using s1 by (simp_all add: a2_def addResponse_donated)
  have s3: "unitsCollected a3 = 3" "status a3 = ''fulfilled''"
    using s2 by (simp_all add: a3_def addResponse_donated)
  show ?thesis
    unfolding Let_def using s1 s2 s3 by (simp add: a1_def a2_def a3_def)
qed

text \<open>
  Claim C2. A response of type \<open>donated\<close> that carries donation details raises
  \<open>unitsCollected\<close> from c to c + 1; afterwards the status is \<open>fulfilled\<close> when
  c + 1 reaches \<open>unitsNeeded\<close>, else \<open>partially_fulfilled\<close> when c + 1 is positive
  (and unchanged otherwise). An alert created at \<open>t0\<close> for three units of O- with
  urgency critical expires at \<open>t0\<close> plus 24 hours; two donated responses leave it with
  two units and \<open>partially_fulfilled\<close>, the third with three units and \<open>fulfilled\<close>. Every
  alert created with urgency critical expires 24 hours after its creation.
\<close>

theorem addResponse_donated_fulfillment:
  "(let a' = addResponse now donorId ''donated'' (x\<lparr>x_donationDetails := Some dd\<rparr>) a
    in unitsCollected a' = unitsCollected a + 1 \<and>
       status a' =
         (if unitsCollected a + 1 \<ge> unitsNeeded a then ''fulfilled''
          else if unitsCollected a + 1 > 0 then ''partially_fulfilled''
          else status a)) \<and>
   (let a0 = newAlert t0 i \<lparr>ad_hospital = h, ad_bloodType = ''O-'',
              ad_urgencyLevel = ''critical'', ad_unitsNeeded = 3, ad_searchRadius = radius\<rparr>;
        a1 = addResponse t1 d1 ''donated'' (x1\<lparr>x_donationDetails := Some dd1\<rparr>) a0;
        a2 = addResponse t2 d2 ''donated'' (x2\<lparr>x_donationDetails := Some dd2\<rparr>) a1;
        a3 = addResponse t3 d3 ''donated'' (x3\<lparr>x_donationDetails := Some dd3\<rparr>) a2
    in expiresAt a0 = t0 + 24 * 60 * 60 * 1000 \<and>
       unitsCollected a1 = 1 \<and> status a1 = ''partially_fulfilled'' \<and>
       unitsCollected a2 = 2 \<and> status a2 = ''partially_fulfilled'' \<and>
       unitsCollected a3 = 3 \<and> status a3 = ''fulfilled'') \<and>
   expiresAt (newAlert t0 i (data\<lparr>ad_urgencyLevel := ''critical''\<rparr>)) =
     t0 + 24 * 60 * 60 * 1000"
proof -
  have step: "(let a' = addResponse now donorId ''donated'' (x\<lparr>x_donationDetails := Some dd\<rparr>) a
    in unitsCollected a' = unitsCollected a + 1 \<and>
       status a' =
         (if unitsCollected a + 1 \<ge> unitsNeeded a then ''fulfilled''
          else if unitsCollected a + 1 > 0 then ''partially_fulfilled''
          else status a))"
    unfolding Let_def by (simp add: addResponse_donated)
  define a0 where "a0 = newAlert t0 i \<lparr>ad_hospital = h, ad_bloodType = ''O-'',
              ad_urgencyLevel = ''critical'', ad_unitsNeeded = 3, ad_searchRadius = radius\<rparr>"
  have n0: "unitsNeeded a0 = 3" "unitsCollected a0 = 0"
    and e0: "expiresAt a0 = t0 + 24 * 60 * 60 * 1000"
    by (simp_all add: a0_def newAlert_fields defaultExpiresAt_critical)
  have sc: "(let a0 = newAlert t0 i \<lparr>ad_hospital = h, ad_bloodType = ''O-'',
              ad_urgencyLevel = ''critical'', ad_unitsNeeded = 3, ad_searchRadius = radius\<rparr>;
        a1 = addResponse t1 d1 ''donated'' (x1\<lparr>x_donationDetails := Some dd1\<rparr>) a0;
        a2 = addResponse t2 d2 ''donated'' (x2\<lparr>x_donationDetails := Some dd2\<rparr>) a1;
        a3 = addResponse t3 d3 ''donated'' (x3\<lparr>x_donationDetails := Some dd3\<rparr>) a2
    in expiresAt a0 = t0 + 24 * 60 * 60 * 1000 \<and>
       unitsCollected a1 = 1 \<and> status a1 = ''partially_fulfilled'' \<and>
       unitsCollected a2 = 2 \<and> status a2 = ''partially_fulfilled'' \<and>
       unitsCollected a3 = 3 \<and> status a3 = ''fulfilled'')"
    using scenario_steps [OF n0, where ?t1.0 = t1 and ?d1.0 = d1 and ?x1.0 = x1 and ?dd1.0 = dd1
        and ?t2.0 = t2 and ?d2.0 = d2 and ?x2.0 = x2 and ?dd2.0 = dd2
        and ?t3.0 = t3 and ?d3.0 = d3 and ?x3.0 = x3 and ?dd3.0 = dd3] e0
    unfolding Let_def a0_def by simp
  have cr: "expiresAt (newAlert t0 i (data\<lparr>ad_urgencyLevel := ''critical''\<rparr>)) =
     t0 + 24 * 60 * 60 * 1000"
    by (simp add: newAlert_fields defaultExpiresAt_critical)
  from step sc cr show ?thesis by (intro conjI)
qed

text \<open>
  The scenario on the example alert created at time 1000, with three donors and empty
  donation details.
\<close>

theorem addResponse_donated_fulfillment_witness:
  "expiresAt (exampleAlert 1000) = 86401000 \<and>
   status (addResponse 4000 ''d3'' ''donated''
     (noAdditionalData\<lparr>x_donationDetails := Some exampleDetails\<rparr>)
     (addResponse 3000 ''d2'' ''donated''
       (noAdditionalData\<lparr>x_donationDetails := Some exampleDetails\<rparr>)
       (addResponse 2000 ''d1'' ''donated''
         (noAdditionalData\<lparr>x_donationDetails := Some exampleDetails\<rparr>)
         (exampleAlert 1000)))) = ''fulfilled''"
  using addResponse_donated_fulfillment
    [where now = 0 and donorId = "''d0''" and x = noAdditionalData and dd = exampleDetails
       and a = "exampleAlert 1000" and data = "\<lparr>ad_hospital = ''h'', ad_bloodType = ''A+'', ad_urgencyLevel = ''low'',
         ad_unitsNeeded = 1, ad_searchRadius = 5\<rparr>"
       and ?t0.0 = 1000 and i = "''64a000000000000000000001''"
       and h = "''64c000000000000000000001''" and radius = 50
       and ?t1.0 = 2000 and ?d1.0 = "''d1''" and ?x1.0 = noAdditionalData
       and ?dd1.0 = exampleDetails
       and ?t2.0 = 3000 and ?d2.0 = "''d2''" and ?x2.0 = noAdditionalData
       and ?dd2.0 = exampleDetails
       and ?t3.0 = 4000 and ?d3.0 = "''d3''" and ?x3.0 = noAdditionalData
       and ?dd3.0 = exampleDetails]
  unfolding Let_def exampleAlert_def by simp

section \<open>The respond route\<close>

lemma respondToAlert_success:
  assumes "respondToAlert lib now email donor alert body = Inr a'"
  shows "\<exists>d a t. donor = Some d \<and> alert = Some a \<and> rb_responseType body = Some t \<and>
     t \<in> set [''interested'', ''committed'', ''not_available'', ''not_eligible''] \<and>
     status a = ''active'' \<and>
     find (\<lambda>r. r_donor r = donor_id d) (responses a) = None \<and>
     a' = addResponse now (donor_id d) t (responseData lib email d t body) a"
  using assms
  by (auto simp: respondToAlert_def respondBodyValid_def save_def
      split: if_splits option.splits)

lemma addResponse_not_donated:
  assumes "t \<noteq> ''donated'' \<or> x_donationDetails x = None"
  shows "addResponse now i t x a =
    a\<lparr>notifications := (notifications a)
         \<lparr>sentTo := markResponded now i t (sentTo (notifications a)),
          responded := responded (notifications a) + 1\<rparr>,
       responses := responses a @
         [\<lparr>r_donor = (case x_donor x of Some d \<Rightarrow> d | None \<Rightarrow> i),
           r_responseType = (case x_responseType x of Some t' \<Rightarrow> t' | None \<Rightarrow> t),
           r_message = x_message x,
           r_contactInfo = x_contactInfo x,
           r_estimatedArrival = x_estimatedArrival x,
           r_donationCompleted = (case x_donationCompleted x of Some b \<Rightarrow> b | None \<Rightarrow> False),
           r_donationDetails = x_donationDetails x,
           r_responseTime =
             (case find (\<lambda>n. n_donor n = i) (sentTo (notifications a)) of
                None \<Rightarrow> None
              | Some n \<Rightarrow> Some ((now - n_sentAt n) div (1000 * 60))),
           r_timestamp = now\<rparr>]\<rparr>"
  using assms by (auto simp: addResponse_def Let_def)

lemma length_markResponded: "length (markResponded now i t ns) = length ns"
  by (induction ns) auto

lemma find_append_last: "P x \<Longrightarrow> find P (xs @ [x]) \<noteq> None"
  by (induction xs) auto


lemma responseData_fields:
  "x_donor (responseData lib email d t body) = Some (donor_id d)"
  "x_responseType (responseData lib email d t body) = Some t"
  "x_donationDetails (responseData lib email d t body) = None"
  by (simp_all add: responseData_def)

lemma respondToAlert_frame:
  assumes "respondToAlert lib now email donor alert body = Inr a'"
  shows "\<exists>d a t r. donor = Some d \<and> alert = Some a \<and> rb_responseType body = Some t \<and>
     t \<in> set [''interested'', ''committed'', ''not_available'', ''not_eligible''] \<and>
     t \<noteq> ''donated'' \<and> status a = ''active'' \<and>
     a' = a\<lparr>notifications := notifications a', responses := responses a'\<rparr> \<and>
     unitsCollected a' = unitsCollected a \<and> status a' = status a \<and>
     expiresAt a' = expiresAt a \<and> unitsNeeded a' = unitsNeeded a \<and>
     responses a' = responses a @ [r] \<and> r_donor r = donor_id d \<and> r_responseType r = t \<and>
     responded (notifications a') = responded (notifications a) + 1 \<and>
     sent (notifications a') = sent (notifications a) \<and>
     opened (notifications a') = opened (notifications a) \<and>
     sentTo (notifications a') = markResponded now (donor_id d) t (sentTo (notifications a))"
proof -
  from respondToAlert_success [OF assms] obtain d a t where
    h: "donor = Some d" "alert = Some a" "rb_responseType body = Some t"
       "t \<in> set [''interested'', ''committed'', ''not_available'', ''not_eligible'']"
       "status a = ''active''"
       "a' = addResponse now (donor_id d) t (responseData lib email d t body) a"
    by blast
  from h(4) have nd: "t \<noteq> ''donated''" by auto
  have eq: "a' = a\<lparr>notifications := (notifications a)
         \<lparr>sentTo := markResponded now (donor_id d) t (sentTo (notifications a)),
          responded := responded (notifications a) + 1\<rparr>,
       responses := responses a @
         [\<lparr>r_donor = donor_id d,
           r_responseType = t,
           r_message = x_message (responseData lib email d t body),
           r_contactInfo = x_contactInfo (responseData lib email d t body),
           r_estimatedArrival = x_estimatedArrival (responseData lib email d t body),
           r_donationCompleted = False,
           r_donationDetails = None,
           r_responseTime =
             (case find (\<lambda>n. n_donor n = donor_id d) (sentTo (notifications a)) of
                None \<Rightarrow> None
              | Some n \<Rightarrow> Some ((now - n_sentAt n) div (1000 * 60))),
           r_timestamp = now\<rparr>]\<rparr>"
    unfolding h(6) using nd
    by (subst addResponse_not_donated) (simp_all add: responseData_def)
  show ?thesis
    apply (rule exI [of _ d], rule exI [of _ a], rule exI [of _ t])
    apply (rule exI [of _ "last (responses a')"])
    using h(1-5) nd by (simp add: eq)
qed

lemma respondToAlert_duplicate:
  assumes "find (\<lambda>r. r_donor r = donor_id d) (responses a) \<noteq> None"
  shows "respondToAlert lib now email (Some d) (Some a) body =
    Inl (if \<not> respondBodyValid lib body then ValidationFailed
         else if status a \<noteq> ''active'' then BadRequest ''Alert is no longer active''
         else BadRequest ''You have already responded to this alert'')"
  using assms by (simp add: respondToAlert_def)

lemma respondToAlert_second:
  assumes "respondToAlert lib t1 email1 (Some d) (Some a) body1 = Inr a1"
  shows "length (responses a1) = length (responses a) + 1 \<and>
     respondToAlert lib t2 email2 (Some d) (Some a1) body2 =
       Inl (if respondBodyValid lib body2
            then BadRequest ''You have already responded to this alert''
            else ValidationFailed)"
proof -
  from respondToAlert_frame [OF assms] obtain r where
    h: "status a1 = status a" "status a = ''active''" "responses a1 = responses a @ [r]"
       "r_donor r = donor_id d"
    by auto
  from h(3,4) have f: "find (\<lambda>r. r_donor r = donor_id d) (responses a1) \<noteq> None"
    by (simp add: find_append_last)
  from h(3) have l: "length (responses a1) = length (responses a) + 1" by simp
  from respondToAlert_duplicate [OF f, of lib t2 email2 body2] h(1,2) l
  show ?thesis by simp
qed

lemma addResponse_appends:
  "length (responses (addResponse now i t x a)) = length (responses a) + 1"
  by (simp add: addResponse_def Let_def)

text \<open>
  Claim C1, as stated, fails on the code: \<open>addResponse\<close> has no check for an earlier
  response of the donor. Called twice with the same donor on the example alert it
  appends twice, and the list has length 2 with both entries for that donor.
\<close>

theorem addResponse_twice_counterexample:
  "map r_donor (responses
     (addResponse 3000 ''64b000000000000000000001'' ''interested'' noAdditionalData
       (addResponse 2000 ''64b000000000000000000001'' ''interested'' noAdditionalData
         (exampleAlert 1000)))) =
   [''64b000000000000000000001'', ''64b000000000000000000001'']"
  by (simp add: addResponse_def Let_def exampleAlert_def newAlert_def noAdditionalData_def)

text \<open>
  Claim C1, amended. The duplicate check is the respond route's. After a successful
  response of a donor to an alert, which makes the list of responses one longer, a
  second request of the same donor for that alert fails with status 400: with the
  message that the donor has already responded when its body is valid, with the
  validation errors otherwise. Nothing is saved, so the list stays as the first
  request left it. More generally the route refuses every request of a donor who has a
  response recorded on the alert.
\<close>

theorem respondToAlert_rejects_second_response:
  "(respondToAlert lib t1 email1 (Some d) (Some a) body1 = Inr a1 \<longrightarrow>
      length (responses a1) = length (responses a) + 1 \<and>
      respondToAlert lib t2 email2 (Some d) (Some a1) body2 =
        Inl (if respondBodyValid lib body2
             then BadRequest ''You have already responded to this alert''
             else ValidationFailed) \<and>
      (\<exists>e. respondToAlert lib t2 email2 (Some d) (Some a1) body2 = Inl e \<and> statusCode e = 400)) \<and>
   (find (\<lambda>r. r_donor r = donor_id d) (responses a) \<noteq> None \<longrightarrow>
      (\<exists>e. respondToAlert lib t2 email2 (Some d) (Some a) body2 = Inl e \<and> statusCode e = 400))"
proof -
  have p1: "length (responses a1) = length (responses a) + 1 \<and>
      respondToAlert lib t2 email2 (Some d) (Some a1) body2 =
        Inl (if respondBodyValid lib body2
             then BadRequest ''You have already responded to this alert''
             else ValidationFailed) \<and>
      (\<exists>e. respondToAlert lib t2 email2 (Some d) (Some a1) body2 = Inl e \<and> statusCode e = 400)"
    if "respondToAlert lib t1 email1 (Some d) (Some a) body1 = Inr a1"
    using respondToAlert_second [OF that, of t2 email2 body2] by (simp add: statusCode_def)
  have p2: "\<exists>e. respondToAlert lib t2 email2 (Some d) (Some a) body2 = Inl e \<and> statusCode e = 400"
    if "find (\<lambda>r. r_donor r = donor_id d) (responses a) \<noteq> None"
    using respondToAlert_duplicate [OF that, of lib t2 email2 body2] by (simp add: statusCode_def)
  from p1 p2 show ?thesis by blast
qed


lemma example_first_response:
  "respondToAlert exampleLib 2000 ''asha@example.org'' (Some exampleDonor)
     (Some (exampleAlert 1000)) exampleBody = Inr exampleResponded"
proof -
  have v: "respondBodyValid exampleLib exampleBody"
    by (simp add: respondBodyValid_def exampleBody_def exampleLib_def)
  have t: "rb_responseType exampleBody = Some ''interested''"
    by (simp add: exampleBody_def)
  have s: "status (exampleAlert 1000) = ''active''"
    "responses (exampleAlert 1000) = []"
    by (simp_all add: exampleAlert_def newAlert_def)
  have ok: "alertValid exampleResponded"
    unfolding exampleResponded_def
    by (subst addResponse_not_donated)
       (simp_all add: alertValid_def exampleAlert_def newAlert_def bloodTypes_def
          responseData_def)
  show ?thesis
    using v t s ok by (simp add: respondToAlert_def save_def exampleResponded_def)
qed

text \<open>
  On the example alert: the example donor's first response is saved and makes the list
  of length 1; the same request again is refused with the message of the duplicate
  check.
\<close>

theorem respondToAlert_rejects_second_response_witness:
  "respondToAlert exampleLib 2000 ''asha@example.org'' (Some exampleDonor)
     (Some (exampleAlert 1000)) exampleBody = Inr exampleResponded \<and>
   length (responses exampleResponded) = 1 \<and>
   respondToAlert exampleLib 3000 ''asha@example.org'' (Some exampleDonor)
     (Some exampleResponded) exampleBody =
     Inl (BadRequest ''You have already responded to this alert'')"
proof -
  have v: "respondBodyValid exampleLib exampleBody"
    by (simp add: respondBodyValid_def exampleBody_def exampleLib_def)
  have e: "responses (exampleAlert 1000) = []"
    by (simp add: exampleAlert_def newAlert_def)
  from respondToAlert_rejects_second_response
    [where lib = exampleLib and ?t1.0 = 2000 and ?email1.0 = "''asha@example.org''"
       and d = exampleDonor and a = "exampleAlert 1000" and ?body1.0 = exampleBody
       and ?a1.0 = exampleResponded and ?t2.0 = 3000 and ?email2.0 = "''asha@example.org''"
       and ?body2.0 = exampleBody, THEN conjunct1, rule_format, OF example_first_response]
  show ?thesis using v e example_first_response by simp
qed

text \<open>
  Claim C10. The respond route accepts a body only when its \<open>responseType\<close> is one of
  interested, committed, not_available, not_eligible, so never \<open>donated\<close>; it refuses an
  alert whose status is not \<open>active\<close>. Whenever it saves, the saved alert differs from
  the alert it read in \<open>responses\<close> and \<open>notifications\<close> only: \<open>unitsCollected\<close>,
  \<open>status\<close>, \<open>expiresAt\<close> and every other field are the same. One response of the donor
  is appended, \<open>notifications.responded\<close> is one more, \<open>sent\<close> and \<open>opened\<close> are
  unchanged and the donor's notification entry is marked in place.
\<close>

theorem respondToAlert_frame_effect:
  "(respondBodyValid lib body \<longrightarrow>
      (\<exists>t. rb_responseType body = Some t \<and> t \<noteq> ''donated'' \<and>
           t \<in> set [''interested'', ''committed'', ''not_available'', ''not_eligible''])) \<and>
   (rb_responseType body = Some ''donated'' \<longrightarrow>
      respondToAlert lib now email donor alert body = Inl ValidationFailed) \<and>
   (respondBodyValid lib body \<and> donor = Some d \<and> alert = Some a \<and> status a \<noteq> ''active'' \<longrightarrow>
      respondToAlert lib now email donor alert body =
        Inl (BadRequest ''Alert is no longer active'')) \<and>
   (respondToAlert lib now email donor alert body = Inr a' \<longrightarrow>
      (\<exists>d a t r. donor = Some d \<and> alert = Some a \<and> rb_responseType body = Some t \<and>
         t \<in> set [''interested'', ''committed'', ''not_available'', ''not_eligible''] \<and>
         t \<noteq> ''donated'' \<and> status a = ''active'' \<and>
         a' = a\<lparr>notifications := notifications a', responses := responses a'\<rparr> \<and>
         unitsCollected a' = unitsCollected a \<and> status a' = status a \<and>
         expiresAt a' = expiresAt a \<and> unitsNeeded a' = unitsNeeded a \<and>
         responses a' = responses a @ [r] \<and> r_donor r = donor_id d \<and> r_responseType r = t \<and>
         responded (notifications a') = responded (notifications a) + 1 \<and>
         sent (notifications a') = sent (notifications a) \<and>
         opened (notifications a') = opened (notifications a) \<and>
         sentTo (notifications a') =
           markResponded now (donor_id d) t (sentTo (notifications a))))"
proof -
  have p1: "\<exists>t. rb_responseType body = Some t \<and> t \<noteq> ''donated'' \<and>
           t \<in> set [''interested'', ''committed'', ''not_available'', ''not_eligible'']"
    if "respondBodyValid lib body"
    using that by (auto simp: respondBodyValid_def split: option.splits)
  have p2: "respondToAlert lib now email donor alert body = Inl ValidationFailed"
    if "rb_responseType body = Some ''donated''"
    using that by (simp add: respondToAlert_def respondBodyValid_def)
  have p3: "respondToAlert lib now email donor alert body =
        Inl (BadRequest ''Alert is no longer active'')"
    if "respondBodyValid lib body \<and> donor = Some d \<and> alert = Some a \<and> status a \<noteq> ''active''"
    using that by (simp add: respondToAlert_def)
  note p4 = respondToAlert_frame [of lib now email donor alert body a']
  from p1 p2 p3 p4 show ?thesis by blast
qed

text \<open>
  The example donor's response to the example alert: saved, with no unit collected, the
  status still active and the expiry still 24 hours after the creation at time 1000.
\<close>

theorem respondToAlert_frame_effect_witness:
  "respondToAlert exampleLib 2000 ''asha@example.org'' (Some exampleDonor)
     (Some (exampleAlert 1000)) exampleBody = Inr exampleResponded \<and>
   unitsCollected exampleResponded = 0 \<and> status exampleResponded = ''active'' \<and>
   expiresAt exampleResponded = 86401000 \<and>
   map r_responseType (responses exampleResponded) = [''interested'']"
proof -
  have e: "responses (exampleAlert 1000) = []" "unitsCollected (exampleAlert 1000) = 0"
    "status (exampleAlert 1000) = ''active''" "expiresAt (exampleAlert 1000) = 86401000"
    by (simp_all add: exampleAlert_def newAlert_def defaultExpiresAt_def)
  from respondToAlert_frame_effect
    [where lib = exampleLib and now = 2000 and email = "''asha@example.org''"
       and donor = "Some exampleDonor" and alert = "Some (exampleAlert 1000)"
       and body = exampleBody and a' = exampleResponded and d = exampleDonor
       and a = "exampleAlert 1000",
     THEN conjunct2, THEN conjunct2, THEN conjunct2, rule_format, OF example_first_response]
  show ?thesis using e example_first_response by (auto simp: exampleBody_def)
qed

section \<open>Donor matching\<close>

lemma filterCandidates_filter:
  "filterCandidates zone now a donors acc = acc @ filter (keepsCandidate zone now a) donors"
  by (induction donors arbitrary: acc) (auto simp: keepsCandidate_def)

lemma findEligibleDonors_filter:
  "findEligibleDonors zone now a donors = filter (keepsCandidate zone now a) donors"
  by (simp add: findEligibleDonors_def filterCandidates_filter)


lemma hasResponded_iff:
  "hasResponded a d = (\<exists>r\<in>set (responses a). r_donor r = donor_id d)"
  by (auto simp: hasResponded_def find_None_iff)

text \<open>
  Claim C7. \<open>findEligibleDonors\<close> keeps, in their order, exactly the candidates that the
  re-run evaluator finds eligible, whose \<open>maxTravelDistance\<close> is not below the alert's
  \<open>searchRadius\<close>, who have no response recorded on the alert, and who are not
  emergency-only donors facing an alert of urgency other than critical. So a candidate
  is excluded when any of the four conditions fails; in particular an eligible AB-
  donor with \<open>maxTravelDistance\<close> 10 is excluded from an alert with \<open>searchRadius\<close> 50.
\<close>

theorem findEligibleDonors_excludes:
  "(maxTravelDistance d < searchRadius a \<or>
    (emergencyOnly d \<and> urgencyLevel a \<noteq> ''critical'') \<or>
    (\<exists>r\<in>set (responses a). r_donor r = donor_id d) \<or>
    \<not> eligible (checkEligibility zone now d) \<longrightarrow>
      d \<notin> set (findEligibleDonors zone now a donors)) \<and>
   findEligibleDonors zone now a donors =
     filter (\<lambda>c. eligible (checkEligibility zone now c) \<and> \<not> maxTravelDistance c < searchRadius a \<and>
                 \<not> hasResponded a c \<and> \<not> (emergencyOnly c \<and> urgencyLevel a \<noteq> ''critical''))
       donors \<and>
   (bloodGroup d = ''AB-'' \<and> eligible (checkEligibility zone now d) \<and> maxTravelDistance d = 10 \<and>
    searchRadius a = 50 \<longrightarrow> d \<notin> set (findEligibleDonors zone now a donors))"
proof -
  have f: "findEligibleDonors zone now a donors =
     filter (\<lambda>c. eligible (checkEligibility zone now c) \<and> \<not> maxTravelDistance c < searchRadius a \<and>
                 \<not> hasResponded a c \<and> \<not> (emergencyOnly c \<and> urgencyLevel a \<noteq> ''critical''))
       donors"
    using findEligibleDonors_filter [of zone now a donors] by (simp add: keepsCandidate_def [abs_def])
  have p1: "d \<notin> set (findEligibleDonors zone now a donors)"
    if "maxTravelDistance d < searchRadius a \<or>
        (emergencyOnly d \<and> urgencyLevel a \<noteq> ''critical'') \<or>
        (\<exists>r\<in>set (responses a). r_donor r = donor_id d) \<or>
        \<not> eligible (checkEligibility zone now d)"
    using that unfolding f hasResponded_iff by auto
  have p2: "d \<notin> set (findEligibleDonors zone now a donors)"
    if "bloodGroup d = ''AB-'' \<and> eligible (checkEligibility zone now d) \<and> maxTravelDistance d = 10 \<and>
        searchRadius a = 50"
    using that p1 by simp
  from f p1 p2 show ?thesis by blast
qed

lemma exampleDonor_eligible:
  "eligible (checkEligibility utcZone 1704838400000 exampleDonor)"
  unfolding eligible_iff
  by (simp add: exampleDonor_range56)
     (simp add: weightOk_def donationGapOk_def notDeferred_def exampleDonor_def msPerDay_def)

text \<open>
  The example donor (AB-, eligible on 2024-01-09 on a UTC host, travel ceiling 10 km)
  matches the query of an AB+ alert with search radius 50 km and is excluded by the
  loop.
\<close>

theorem findEligibleDonors_excludes_witness:
  "donorQueryMatches (\<lambda>d. True) ((exampleAlert 1704838000000)\<lparr>bloodType := ''AB+''\<rparr>)
     exampleDonor \<and>
   eligible (checkEligibility utcZone 1704838400000 exampleDonor) \<and>
   maxTravelDistance exampleDonor = 10 \<and>
   searchRadius ((exampleAlert 1704838000000)\<lparr>bloodType := ''AB+''\<rparr>) = 50 \<and>
   exampleDonor \<notin> set (findEligibleDonors utcZone 1704838400000
     ((exampleAlert 1704838000000)\<lparr>bloodType := ''AB+''\<rparr>) [exampleDonor])"
proof -
  have b: "bloodGroup exampleDonor = ''AB-''" "maxTravelDistance exampleDonor = 10"
    by (simp_all add: exampleDonor_def)
  have c: "''AB-'' \<in> set (compatibleDonorTypes ''AB+'')"
    by (simp add: compatibleDonorTypes_def compatibleDonorTypesTable_def lookupOrEmpty_def)
  have r: "searchRadius ((exampleAlert 1704838000000)\<lparr>bloodType := ''AB+''\<rparr>) = 50"
    by (simp add: exampleAlert_def newAlert_def)
  note t = findEligibleDonors_excludes
    [where d = exampleDonor and zone = utcZone and now = 1704838400000
       and a = "(exampleAlert 1704838000000)\<lparr>bloodType := ''AB+''\<rparr>"
       and donors = "[exampleDonor]", THEN conjunct2, THEN conjunct2]
  have q: "donorQueryMatches (\<lambda>d. True)
      ((exampleAlert 1704838000000)\<lparr>bloodType := ''AB+''\<rparr>) exampleDonor"
    using c by (simp add: donorQueryMatches_def exampleDonor_def)
  show ?thesis using t b q r exampleDonor_eligible by simp
qed

section \<open>Notification dispatch\<close>

lemma tryNotify_throws: "isl (tryNotify env now d s) = sendThrows env d"
  by (simp add: tryNotify_def sendThrows_def Let_def)

lemma notifyDonor_thrown:
  assumes "sendThrows env d"
  shows "emailFailed (results (notifyDonor env now s d)) =
           emailFailed (results s) + (if notifyEmail d then 1 else 0)"
    and "smsFailed (results (notifyDonor env now s d)) =
           smsFailed (results s) + (if notifySms d then 1 else 0)"
    and "pushFailed (results (notifyDonor env now s d)) =
           pushFailed (results s) + (if notifyPush d then 1 else 0)"
    and "smsSent (results (notifyDonor env now s d)) = smsSent (results s)"
    and "pushSent (results (notifyDonor env now s d)) = pushSent (results s)"
    and "sentToList (notifyDonor env now s d) = sentToList s"
    and "sendLog (notifyDonor env now s d) =
           sendLog s @
           (if notifyEmail d \<and> \<not> emailOk env d then [(''email'', donor_id d)]
            else (if notifyEmail d then [(''email'', donor_id d)] else []) @
                 [(''sms'', donor_id d)])"
  using assms
  by (auto simp: notifyDonor_def tryNotify_def sendThrows_def incrementFailedCount_def
      logSend_def Let_def)

lemma notifyDonor_returned:
  assumes "\<not> sendThrows env d"
  shows "emailFailed (results (notifyDonor env now s d)) = emailFailed (results s)"
    and "smsFailed (results (notifyDonor env now s d)) = smsFailed (results s)"
    and "pushFailed (results (notifyDonor env now s d)) = pushFailed (results s)"
    and "length (sentToList (notifyDonor env now s d)) = length (sentToList s) + 1"
  using assms
  by (auto simp: notifyDonor_def tryNotify_def sendThrows_def logSend_def Let_def)


lemma foldl_failed_counts:
  "emailFailed (results (foldl (notifyDonor env now) s donors)) =
     emailFailed (results s) +
       int (length (filter (\<lambda>d. sendThrows env d \<and> notifyEmail d) donors)) \<and>
   smsFailed (results (foldl (notifyDonor env now) s donors)) =
     smsFailed (results s) +
       int (length (filter (\<lambda>d. sendThrows env d \<and> notifySms d) donors)) \<and>
   pushFailed (results (foldl (notifyDonor env now) s donors)) =
     pushFailed (results s) +
       int (length (filter (\<lambda>d. sendThrows env d \<and> notifyPush d) donors))"
proof (induction donors arbitrary: s)
  case Nil
  then show ?case by simp
next
  case (Cons d donors)
  show ?case
  proof (cases "sendThrows env d")
    case True
    then show ?thesis
      using Cons.IH [of "notifyDonor env now s d"]
      by (simp add: notifyDonor_thrown)
  next
    case False
    then show ?thesis
      using Cons.IH [of "notifyDonor env now s d"]
      by (simp add: notifyDonor_returned)
  qed
qed

lemma dispatch_failed_counts:
  "emailFailed (results (dispatchLoop env now a donors)) =
     int (length (filter (\<lambda>d. sendThrows env d \<and> notifyEmail d) donors)) \<and>
   smsFailed (results (dispatchLoop env now a donors)) =
     int (length (filter (\<lambda>d. sendThrows env d \<and> notifySms d) donors)) \<and>
   pushFailed (results (dispatchLoop env now a donors)) =
     int (length (filter (\<lambda>d. sendThrows env d \<and> notifyPush d) donors))"
  unfolding dispatchLoop_def
  using foldl_failed_counts [of env now
      "\<lparr>results = initialResults, sentToList = sentTo (notifications a), sendLog = []\<rparr>" donors]
  by (simp add: initialResults_def)

lemma dispatched_sent:
  "sent (notifications (dispatchedAlert env now a donors)) =
     sent (notifications a) + int (length donors)"
  by (simp add: dispatchedAlert_def)

lemma sendBloodShortageAlert_saved:
  assumes "sendBloodShortageAlert env now a donors = Inr (res, a')"
  shows "a' = dispatchedAlert env now a donors \<and> res = results (dispatchLoop env now a donors)"
  using assms by (auto simp: sendBloodShortageAlert_def save_def split: if_splits)

text \<open>
  Claim C8. For every list of donors the dispatch adds the number of donors in the list
  to \<open>notifications.sent\<close>, in memory and, when the save succeeds, in the saved alert,
  whatever the number of messages sent. A send that throws for a donor ends the sends
  for that donor: when the e-mail send throws, it is the only send called; when the SMS
  send throws, the push send is not called. The failed counter of each channel the
  donor has enabled is then one more, the sent counters of the later channels are
  unchanged and no notification entry is recorded for the donor. Over the whole list,
  the failed counter of a channel counts the donors with that channel enabled for whom
  a send threw.
\<close>

theorem dispatch_counts:
  "sent (notifications (dispatchedAlert env now a donors)) =
     sent (notifications a) + int (length donors) \<and>
   (sendBloodShortageAlert env now a donors = Inr (res, a') \<longrightarrow>
      sent (notifications a') = sent (notifications a) + int (length donors) \<and>
      res = results (dispatchLoop env now a donors)) \<and>
   isl (tryNotify env now d s) = sendThrows env d \<and>
   (sendThrows env d \<longrightarrow>
      emailFailed (results (notifyDonor env now s d)) =
        emailFailed (results s) + (if notifyEmail d then 1 else 0) \<and>
      smsFailed (results (notifyDonor env now s d)) =
        smsFailed (results s) + (if notifySms d then 1 else 0) \<and>
      pushFailed (results (notifyDonor env now s d)) =
        pushFailed (results s) + (if notifyPush d then 1 else 0) \<and>
      smsSent (results (notifyDonor env now s d)) = smsSent (results s) \<and>
      pushSent (results (notifyDonor env now s d)) = pushSent (results s) \<and>
      sentToList (notifyDonor env now s d) = sentToList s \<and>
      sendLog (notifyDonor env now s d) =
        sendLog s @
        (if notifyEmail d \<and> \<not> emailOk env d then [(''email'', donor_id d)]
         else (if notifyEmail d then [(''email'', donor_id d)] else []) @
              [(''sms'', donor_id d)])) \<and>
   emailFailed (results (dispatchLoop env now a donors)) =
     int (length (filter (\<lambda>d. sendThrows env d \<and> notifyEmail d) donors)) \<and>
   smsFailed (results (dispatchLoop env now a donors)) =
     int (length (filter (\<lambda>d. sendThrows env d \<and> notifySms d) donors)) \<and>
   pushFailed (results (dispatchLoop env now a donors)) =
     int (length (filter (\<lambda>d. sendThrows env d \<and> notifyPush d) donors))"
proof -
  have p2: "sent (notifications a') = sent (notifications a) + int (length donors) \<and>
      res = results (dispatchLoop env now a donors)"
    if "sendBloodShortageAlert env now a donors = Inr (res, a')"
    using sendBloodShortageAlert_saved [OF that] dispatched_sent [of env now a donors] by simp
  note p3 = tryNotify_throws [of env now d s]
  note p4 = notifyDonor_thrown [of env d now s]
  note p5 = dispatch_failed_counts [of env now a donors]
  note p1 = dispatched_sent [of env now a donors]
  from p1 p2 p3 p4 p5 show ?thesis by blast
qed


text \<open>
  The example donor has all three channels enabled; the e-mail send returns and the SMS
  send throws. The push send is not called, all three failed counters are 1, and
  \<open>notifications.sent\<close> goes from 0 to 1.
\<close>

theorem dispatch_counts_witness:
  "sendThrows exampleSender exampleDonor \<and>
   sendBloodShortageAlert exampleSender 2000 (exampleAlert 1000) [exampleDonor] =
     Inr (results (dispatchLoop exampleSender 2000 (exampleAlert 1000) [exampleDonor]),
          dispatchedAlert exampleSender 2000 (exampleAlert 1000) [exampleDonor]) \<and>
   sent (notifications (dispatchedAlert exampleSender 2000 (exampleAlert 1000) [exampleDonor])) = 1 \<and>
   emailFailed (results (dispatchLoop exampleSender 2000 (exampleAlert 1000) [exampleDonor])) = 1 \<and>
   smsFailed (results (dispatchLoop exampleSender 2000 (exampleAlert 1000) [exampleDonor])) = 1 \<and>
   pushFailed (results (dispatchLoop exampleSender 2000 (exampleAlert 1000) [exampleDonor])) = 1 \<and>
   pushSent (results (dispatchLoop exampleSender 2000 (exampleAlert 1000) [exampleDonor])) = 0 \<and>
   sendLog (dispatchLoop exampleSender 2000 (exampleAlert 1000) [exampleDonor]) =
     [(''email'', donor_id exampleDonor), (''sms'', donor_id exampleDonor)]"
proof -
  define s0 :: dispatchState
    where "s0 = \<lparr>results = initialResults, sentToList = [], sendLog = []\<rparr>"
  note t = dispatch_counts
    [where env = exampleSender and now = 2000 and a = "exampleAlert 1000"
       and donors = "[exampleDonor]" and d = exampleDonor and s = s0
       and res = "results (dispatchLoop exampleSender 2000 (exampleAlert 1000) [exampleDonor])"
       and a' = "dispatchedAlert exampleSender 2000 (exampleAlert 1000) [exampleDonor]"]
  have th: "sendThrows exampleSender exampleDonor"
    by (simp add: sendThrows_def exampleSender_def exampleDonor_def)
  have ch: "notifyEmail exampleDonor" "notifySms exampleDonor" "notifyPush exampleDonor"
    "emailOk exampleSender exampleDonor"
    by (simp_all add: exampleDonor_def exampleSender_def)
  have loop: "dispatchLoop exampleSender 2000 (exampleAlert 1000) [exampleDonor] =
      notifyDonor exampleSender 2000 s0 exampleDonor"
    by (simp add: dispatchLoop_def s0_def exampleAlert_def newAlert_def)
  from t [THEN conjunct2, THEN conjunct2, THEN conjunct2, THEN conjunct1, rule_format, OF th]
  have one: "emailFailed (results (notifyDonor exampleSender 2000 s0 exampleDonor)) = 1"
    "smsFailed (results (notifyDonor exampleSender 2000 s0 exampleDonor)) = 1"
    "pushFailed (results (notifyDonor exampleSender 2000 s0 exampleDonor)) = 1"
    "pushSent (results (notifyDonor exampleSender 2000 s0 exampleDonor)) = 0"
    "sentToList (notifyDonor exampleSender 2000 s0 exampleDonor) = []"
    "sendLog (notifyDonor exampleSender 2000 s0 exampleDonor) =
       [(''email'', donor_id exampleDonor), (''sms'', donor_id exampleDonor)]"
    using ch by (simp_all add: s0_def initialResults_def)
  have valid: "alertValid (dispatchedAlert exampleSender 2000 (exampleAlert 1000) [exampleDonor])"
    by (simp add: dispatchedAlert_def loop one(5))
       (simp add: alertValid_def exampleAlert_def newAlert_def bloodTypes_def)
  have saved: "sendBloodShortageAlert exampleSender 2000 (exampleAlert 1000) [exampleDonor] =
     Inr (results (dispatchLoop exampleSender 2000 (exampleAlert 1000) [exampleDonor]),
          dispatchedAlert exampleSender 2000 (exampleAlert 1000) [exampleDonor])"
    using valid by (simp add: sendBloodShortageAlert_def save_def)
  from t [THEN conjunct2, THEN conjunct1, rule_format, OF saved]
  have sent1: "sent (notifications (dispatchedAlert exampleSender 2000 (exampleAlert 1000)
      [exampleDonor])) = 1"
    by (simp add: exampleAlert_def newAlert_def)
  show ?thesis using th saved sent1 one by (simp add: loop)
qed

section \<open>Sharing with partner hospitals\<close>

lemma example_share:
  "shareAlert exampleLib 2000 exampleHospitalA (Some (exampleAlert 1000)) exampleShareBody =
     Inr (exampleShared,
          [\<lparr>sr_hospitalId = ''64c000000000000000000002'', sr_success = True, sr_reason = None\<rparr>])"
proof -
  have p: "isPartner exampleHospitalA ''64c000000000000000000002''"
    by (simp add: isPartner_def exampleHospitalA_def)
  have n: "\<not> alreadyShared (exampleAlert 1000) ''64c000000000000000000002''"
    by (simp add: alreadyShared_def exampleAlert_def newAlert_def)
  have l: "shareLoop exampleHospitalA 2000 (Some ''O- needed'') [''64c000000000000000000002'']
        (exampleAlert 1000, []) =
      (exampleShared,
       [\<lparr>sr_hospitalId = ''64c000000000000000000002'', sr_success = True, sr_reason = None\<rparr>])"
    using p n by (simp add: exampleShared_def exampleAlert_def newAlert_def)
  have v: "alertValid exampleShared"
    by (simp add: alertValid_def exampleShared_def exampleAlert_def newAlert_def bloodTypes_def
        pushedShare_def inEnum_def)
  have s: "allowSharing (exampleAlert 1000)"
    by (simp add: exampleAlert_def newAlert_def)
  show ?thesis
    using l v s
    by (simp add: shareAlert_def exampleShareBody_def exampleLib_def save_def)
qed

lemma find_snoc:
  "find P (xs @ [x]) = (case find P xs of Some y \<Rightarrow> Some y | None \<Rightarrow> if P x then Some x else None)"
  by (induction xs) auto

lemma alreadyShared_find:
  "alreadyShared a hid = (find (\<lambda>s. s_hospital s = hid) (sharedWith a) \<noteq> None)"
  by (auto simp: alreadyShared_def list_ex_iff find_None_iff)

lemma sharedUnanswered_failure:
  "sharedUnanswered (a, res) \<Longrightarrow>
   sharedUnanswered (a, res @ [\<lparr>sr_hospitalId = hid, sr_success = False, sr_reason = why\<rparr>])"
  by (simp add: sharedUnanswered_def)

lemma sharedUnanswered_push:
  assumes "sharedUnanswered (a, res)" "\<not> alreadyShared a hid"
  shows "sharedUnanswered
    (a\<lparr>sharedWith := sharedWith a @ [pushedShare now hid msg]\<rparr>,
     res @ [\<lparr>sr_hospitalId = hid, sr_success = True, sr_reason = None\<rparr>])"
proof -
  from assms(2) have n: "find (\<lambda>s. s_hospital s = hid) (sharedWith a) = None"
    by (simp add: alreadyShared_find)
  have old: "list_all (\<lambda>r. sr_success r \<longrightarrow>
        (case find (\<lambda>s. s_hospital s = sr_hospitalId r)
                (sharedWith a @ [pushedShare now hid msg]) of
           None \<Rightarrow> False
         | Some e \<Rightarrow> s_response e = None)) res"
    using assms(1)
    by (auto simp: sharedUnanswered_def list_all_iff find_snoc split: option.splits)
  have new: "(case find (\<lambda>s. s_hospital s = hid) (sharedWith a @ [pushedShare now hid msg]) of
           None \<Rightarrow> False
         | Some e \<Rightarrow> s_response e = None)"
    using n by (simp add: find_snoc pushedShare_def)
  from old new show ?thesis by (simp add: sharedUnanswered_def)
qed

lemma shareLoop_unanswered:
  "sharedUnanswered st \<Longrightarrow> sharedUnanswered (shareLoop h now msg ids st)"
proof (induction h now msg ids st rule: shareLoop.induct)
  case (1 h now message st)
  then show ?case by simp
next
  case (2 h now message hospitalId rest a res)
  show ?case
  proof (cases "isPartner h hospitalId")
    case False
    with 2 show ?thesis by (simp add: sharedUnanswered_failure)
  next
    case True
    show ?thesis
    proof (cases "alreadyShared a hospitalId")
      case True
      with 2 \<open>isPartner h hospitalId\<close> show ?thesis by (simp add: sharedUnanswered_failure)
    next
      case False
      with 2 \<open>isPartner h hospitalId\<close> show ?thesis by (simp add: sharedUnanswered_push)
    qed
  qed
qed

lemma shareAlert_unanswered:
  assumes "shareAlert lib now h alert body = Inr (a', res)"
  shows "sharedUnanswered (a', res)"
proof -
  from assms obtain a where
    a: "alert = Some a"
    and r: "(a', res) = shareLoop h now (map_option (trim lib) (sb_message body))
        (sb_hospitalIds body) (a, [])"
    by (auto simp: shareAlert_def save_def Let_def split: if_splits option.splits)
  have "sharedUnanswered (a, [])" by (simp add: sharedUnanswered_def)
  from shareLoop_unanswered [OF this] r show ?thesis by simp
qed

lemma respondToShare_unanswered:
  assumes "sharedUnanswered (a', res)" "r \<in> set res" "sr_success r"
    "sr_hospitalId r = hospital_id hb"
  shows "respondToShare lib hb (Some a') rbody =
     Inl (if shareResponseBodyValid rbody
          then BadRequest ''You have already responded to this alert''
          else ValidationFailed)"
proof -
  from assms obtain e where
    "find (\<lambda>s. s_hospital s = hospital_id hb) (sharedWith a') = Some e" "s_response e = None"
    by (auto simp: sharedUnanswered_def list_all_iff split: option.splits)
  then show ?thesis by (simp add: respondToShare_def)
qed


text \<open>
  Claim C3, on the code. The sharing record that a successful share appends carries no
  \<open>response\<close>: the schema gives that path no default and the push does not set it, so
  it is not \<open>pending\<close>. Hence for every hospital that \<open>shareAlert\<close> reports as shared,
  the first \<open>respondToShare\<close> of that hospital on the saved alert does not succeed: a
  valid body is refused with status 400 and the message that the hospital has already
  responded.
\<close>

theorem shareAlert_response_never_pending:
  "s_response (pushedShare now hid msg) = None \<and>
   (shareAlert lib now h alert body = Inr (a', res) \<and> r \<in> set res \<and> sr_success r \<and>
    sr_hospitalId r = hospital_id hb \<longrightarrow>
      respondToShare lib hb (Some a') rbody =
        Inl (if shareResponseBodyValid rbody
             then BadRequest ''You have already responded to this alert''
             else ValidationFailed))"
proof -
  have p1: "s_response (pushedShare now hid msg) = None" by (simp add: pushedShare_def)
  have p2: "respondToShare lib hb (Some a') rbody =
        Inl (if shareResponseBodyValid rbody
             then BadRequest ''You have already responded to this alert''
             else ValidationFailed)"
    if "shareAlert lib now h alert body = Inr (a', res) \<and> r \<in> set res \<and> sr_success r \<and>
        sr_hospitalId r = hospital_id hb"
    using that respondToShare_unanswered [OF shareAlert_unanswered, of lib now h alert body a' res r hb]
    by blast
  from p1 p2 show ?thesis by blast
qed

text \<open>
  Hospital A shares the example alert with its partner B; B's answer \<open>accepted\<close>, its
  first, is refused as a repeated one.
\<close>

theorem shareAlert_response_never_pending_witness:
  "shareAlert exampleLib 2000 exampleHospitalA (Some (exampleAlert 1000)) exampleShareBody =
     Inr (exampleShared,
          [\<lparr>sr_hospitalId = ''64c000000000000000000002'', sr_success = True, sr_reason = None\<rparr>]) \<and>
   map s_response (sharedWith exampleShared) = [None] \<and>
   shareResponseBodyValid exampleShareResponse \<and>
   respondToShare exampleLib exampleHospitalB (Some exampleShared) exampleShareResponse =
     Inl (BadRequest ''You have already responded to this alert'')"
proof -
  have v: "shareResponseBodyValid exampleShareResponse"
    by (simp add: shareResponseBodyValid_def exampleShareResponse_def)
  have m: "map s_response (sharedWith exampleShared) = [None]"
    by (simp add: exampleShared_def pushedShare_def)
  have i: "sr_hospitalId \<lparr>sr_hospitalId = ''64c000000000000000000002'', sr_success = True,
      sr_reason = None\<rparr> = hospital_id exampleHospitalB"
    by (simp add: exampleHospitalB_def)
  from shareAlert_response_never_pending
    [where lib = exampleLib and now = 2000 and h = exampleHospitalA
       and alert = "Some (exampleAlert 1000)" and body = exampleShareBody
       and a' = exampleShared
       and res = "[\<lparr>sr_hospitalId = ''64c000000000000000000002'', sr_success = True,
                    sr_reason = None\<rparr>]"
       and r = "\<lparr>sr_hospitalId = ''64c000000000000000000002'', sr_success = True,
                 sr_reason = None\<rparr>"
       and hb = exampleHospitalB and rbody = exampleShareResponse
       and hid = "''64c000000000000000000002''" and msg = None,
     THEN conjunct2]
  show ?thesis using example_share v m i by simp
qed

section \<open>Rates\<close>

lemma roundHalfEven_error: "\<bar>of_int (roundHalfEven y) - y\<bar> \<le> 1 / 2"
proof -
  have "of_int \<lfloor>y\<rfloor> \<le> y" "y < of_int \<lfloor>y\<rfloor> + 1" by linarith+
  then show ?thesis by (auto simp: roundHalfEven_def Let_def abs_le_iff)
qed

lemma binaryExponent_le:
  assumes "0 < x"
  shows "2 powi (binaryExponent x) \<le> x"
proof -
  obtain p q where pq: "quotient_of x = (p, q)" by (cases "quotient_of x")
  then have q: "0 < q" by (rule quotient_of_denom_pos)
  from pq have x: "x = of_int p / of_int q" by (rule quotient_of_div)
  with assms q have p: "0 < p" by (simp add: zero_less_divide_iff)
  define e0 where "e0 = bitlen p - bitlen q"
  show ?thesis
  proof (cases "2 powi e0 \<le> x")
    case True
    then show ?thesis by (simp add: binaryExponent_def pq e0_def)
  next
    case False
    from bitlen_bounds [OF p] have lp: "(2::int) ^ nat (bitlen p - 1) \<le> p" by simp
    from bitlen_bounds [OF q] have uq: "q < (2::int) ^ nat (bitlen q)" by simp
    from p have bp: "1 \<le> bitlen p" by (auto simp: bitlen_alt_def)
    have bq: "0 \<le> bitlen q" by (rule bitlen_nonneg)
    have "e0 - 1 = (bitlen p - 1) - bitlen q" by (simp add: e0_def)
    then have "(2::rat) powi (e0 - 1) = 2 powi ((bitlen p - 1) - bitlen q)"
      by (rule arg_cong)
    also have "\<dots> = 2 powi (bitlen p - 1) / 2 powi (bitlen q)"
      by (rule power_int_diff) simp
    also have "\<dots> = (2::rat) ^ nat (bitlen p - 1) / 2 ^ nat (bitlen q)"
      using bp bq by (simp add: power_int_def)
    also have "\<dots> \<le> of_int p / 2 ^ nat (bitlen q)"
    proof -
      have "(of_int ((2::int) ^ nat (bitlen p - 1)) :: rat) \<le> of_int p"
        using lp by (simp only: of_int_le_iff)
      then show ?thesis by (simp add: divide_right_mono)
    qed
    also have "\<dots> \<le> of_int p / of_int q"
    proof -
      have "(of_int q :: rat) \<le> of_int ((2::int) ^ nat (bitlen q))"
        using uq by (simp only: of_int_le_iff)
      then show ?thesis using p q by (simp add: frac_le)
    qed
    finally have "(2::rat) powi (e0 - 1) \<le> x" by (simp add: x)
    with False show ?thesis by (simp add: binaryExponent_def pq e0_def)
  qed
qed

lemma nearestDouble_error:
  assumes "0 < x"
  shows "\<bar>nearestDouble x - x\<bar> \<le> x / 2 ^ 53"
proof -
  define e where "e = binaryExponent x"
  define u :: rat where "u = 2 powi (e - 52)"
  have u: "0 < u" by (simp add: u_def)
  have "nearestDouble x - x = (of_int (roundHalfEven (x / u)) - x / u) * u"
    using u by (simp add: nearestDouble_def Let_def u_def e_def algebra_simps)
  then have "\<bar>nearestDouble x - x\<bar> = \<bar>of_int (roundHalfEven (x / u)) - x / u\<bar> * u"
    using u by (simp add: abs_mult)
  also have "\<dots> \<le> (1 / 2) * u"
    using roundHalfEven_error [of "x / u"] u by (simp add: mult_right_mono)
  also have "\<dots> = 2 powi e / 2 ^ 53"
    by (simp add: u_def power_int_diff)
  also have "\<dots> \<le> x / 2 ^ 53"
    using binaryExponent_le [OF assms] by (simp add: e_def divide_right_mono)
  finally show ?thesis .
qed

lemma toDouble_error:
  assumes "0 \<le> x"
  shows "\<bar>toDouble x - x\<bar> \<le> x / 2 ^ 53"
proof (cases "x = 0")
  case True
  then show ?thesis by (simp add: toDouble_def)
next
  case False
  with assms have "0 < x" by simp
  then show ?thesis using nearestDouble_error [of x] by (simp add: toDouble_def)
qed


lemma toDouble_nonneg:
  assumes "0 \<le> x"
  shows "0 \<le> toDouble x"
proof -
  have "x / 2 ^ 53 \<le> x" using assms by (simp add: divide_le_eq)
  with toDouble_error [OF assms] have "\<bar>toDouble x - x\<bar> \<le> x" by (rule order_trans)
  then show ?thesis by linarith
qed

lemma percent_error:
  fixes r s :: int
  assumes r: "0 \<le> r" and s: "0 < s"
  shows "\<bar>jsMultiply (jsDivide (of_int r) (of_int s)) 100 - 100 * of_int r / of_int s\<bar>
           \<le> 3 * (100 * of_int r / of_int s) / 2 ^ 53"
proof -
  define x :: rat where "x = of_int r / of_int s"
  define q where "q = toDouble x"
  define p where "p = toDouble (q * 100)"
  have x0: "0 \<le> x" using r s by (simp add: x_def)
  have q0: "0 \<le> q" unfolding q_def using x0 by (rule toDouble_nonneg)
  have eq: "\<bar>q - x\<bar> \<le> x / 2 ^ 53" unfolding q_def using x0 by (rule toDouble_error)
  have "x / 2 ^ 53 \<le> x" using x0 by (simp add: divide_le_eq)
  with eq have "\<bar>q - x\<bar> \<le> x" by (rule order_trans)
  then have qx: "q \<le> 2 * x" by linarith
  have y0: "0 \<le> q * 100" using q0 by simp
  have ep: "\<bar>p - q * 100\<bar> \<le> (q * 100) / 2 ^ 53"
    unfolding p_def using y0 by (rule toDouble_error)
  have "(q * 100) / 2 ^ 53 \<le> (2 * x * 100) / 2 ^ 53"
    using qx by (simp add: divide_right_mono)
  with ep have ep': "\<bar>p - q * 100\<bar> \<le> 200 * x / 2 ^ 53" by simp
  have "q * 100 - 100 * x = 100 * (q - x)" by (simp add: algebra_simps)
  then have "\<bar>q * 100 - 100 * x\<bar> = 100 * \<bar>q - x\<bar>" by (simp only: abs_mult)
  also have "\<dots> \<le> 100 * (x / 2 ^ 53)" using eq by (simp only: mult_le_cancel_left_pos) 
  finally have eq': "\<bar>q * 100 - 100 * x\<bar> \<le> 100 * x / 2 ^ 53" by simp
  have "\<bar>p - 100 * x\<bar> \<le> \<bar>p - q * 100\<bar> + \<bar>q * 100 - 100 * x\<bar>" by simp
  with ep' eq' have "\<bar>p - 100 * x\<bar> \<le> 300 * x / 2 ^ 53" by simp
  then show ?thesis
    by (simp add: p_def q_def x_def jsMultiply_def jsDivide_def)
qed

lemma percent_round:
  fixes r s :: int
  assumes r: "0 \<le> r" and rb: "r < 2 ^ 40" and s: "0 < s"
  defines "R \<equiv> mathRound (jsMultiply (jsDivide (of_int r) (of_int s)) 100)"
  defines "H \<equiv> (200 * r + s) div (2 * s)"
  shows "H = mathRound (100 * of_int r / of_int s)"
    and "H - 1 \<le> R" and "R \<le> H"
    and "(200 * r + s) mod (2 * s) \<noteq> 0 \<Longrightarrow> R = H"
proof -
  define t :: rat where "t = 100 * of_int r / of_int s"
  define p where "p = jsMultiply (jsDivide (of_int r) (of_int s)) 100"
  define m where "m = (200 * r + s) mod (2 * s)"
  define eps :: rat where "eps = 1 / (2 * of_int s)"
  have s': "(0::rat) < of_int s" using s by simp
  have m: "0 \<le> m" "m < 2 * s" using s by (simp_all add: m_def)
  have N: "200 * r + s = 2 * s * H + m" by (simp add: H_def m_def)
  have half: "t + 1 / 2 = of_int (200 * r + s) / of_int (2 * s)"
    using s' by (simp add: t_def field_simps)
  show HH: "H = mathRound (100 * of_int r / of_int s)"
    unfolding mathRound_def H_def using half [unfolded t_def]
    by (simp only: floor_divide_of_int_eq)
  have tm: "t + 1 / 2 = of_int H + of_int m * eps"
    unfolding half N eps_def using s' by (simp add: field_simps)
  have err: "\<bar>p - t\<bar> \<le> 3 * t / 2 ^ 53"
    unfolding p_def t_def using r s by (rule percent_error)
  have "3 * t / 2 ^ 53 = (of_int (600 * r) / 2 ^ 53) * eps"
    using s' by (simp add: t_def eps_def field_simps)
  also have "\<dots> < 1 * eps"
  proof -
    have "600 * r < 2 ^ 53" using rb by simp
    then have "(of_int (600 * r) :: rat) < of_int (2 ^ 53)" by (simp only: of_int_less_iff)
    then have "(of_int (600 * r) :: rat) / 2 ^ 53 < 1" by simp
    moreover have "0 < eps" using s' by (simp add: eps_def)
    ultimately show ?thesis by (simp only: mult_strict_right_mono)
  qed
  finally have small: "3 * t / 2 ^ 53 < eps" by simp
  from err small have "\<bar>p - t\<bar> < eps" by (rule le_less_trans)
  then have lo: "t - eps < p" and hi: "p < t + eps" by linarith+
  have eps1: "of_int (2 * s) * eps = 1" using s' by (simp add: eps_def)
  have eps_half: "eps \<le> 1 / 2"
  proof -
    have "(1::rat) \<le> of_int s" using s by (simp add: of_int_1_le_iff)
    then show ?thesis by (simp add: eps_def field_simps)
  qed
  have eps0: "0 < eps" using s' by (simp add: eps_def)
  have mR: "R = \<lfloor>p + 1 / 2\<rfloor>" by (simp add: R_def p_def mathRound_def)
  have up: "p + 1 / 2 < of_int H + 1"
  proof -
    have "m + 1 \<le> 2 * s" using m(2) by simp
    then have "(of_int (m + 1) :: rat) \<le> of_int (2 * s)" by (simp only: of_int_le_iff)
    then have "of_int (m + 1) * eps \<le> of_int (2 * s) * eps"
      using eps0 by (simp only: mult_right_mono less_imp_le)
    then have "of_int m * eps + eps \<le> 1" using eps1 by (simp add: algebra_simps)
    with hi tm show ?thesis by simp
  qed
  then show "R \<le> H" unfolding mR by (simp add: floor_le_iff)
  have low: "of_int H - 1 < p + 1 / 2"
  proof -
    have "0 \<le> of_int m * eps" using m(1) eps0 by simp
    with lo tm eps_half show ?thesis by simp
  qed
  then show "H - 1 \<le> R" unfolding mR by (simp add: le_floor_iff)
  show "R = H" if "(200 * r + s) mod (2 * s) \<noteq> 0"
  proof -
    from that m(1) have "1 \<le> m" by (simp add: m_def)
    then have "(1::rat) \<le> of_int m" by (simp add: of_int_1_le_iff)
    then have "eps \<le> of_int m * eps" using eps0 by simp
    with lo tm have "of_int H < p + 1 / 2" by simp
    then have "H \<le> R" unfolding mR by (simp add: le_floor_iff)
    with \<open>R \<le> H\<close> show ?thesis by simp
  qed
qed

lemma roundHalfEven_of_int: "roundHalfEven (of_int i) = i"
  by (simp add: roundHalfEven_def)

lemma roundHalfEven_ge: "of_int i \<le> z \<Longrightarrow> i \<le> roundHalfEven z"
proof -
  assume "of_int i \<le> z"
  then have "i \<le> \<lfloor>z\<rfloor>" by (simp add: le_floor_iff)
  then show ?thesis by (auto simp: roundHalfEven_def Let_def)
qed

lemma roundHalfEven_le: "z \<le> of_int i \<Longrightarrow> roundHalfEven z \<le> i"
proof -
  assume a: "z \<le> of_int i"
  show ?thesis
  proof (cases "z = of_int i")
    case True
    then show ?thesis by (simp add: roundHalfEven_def)
  next
    case False
    with a have "z < of_int i" by simp
    then have "\<lfloor>z\<rfloor> < i" by (simp add: floor_less_iff)
    then show ?thesis by (auto simp: roundHalfEven_def Let_def)
  qed
qed

lemma roundHalfEven_lt: "z < of_int i - 1 / 2 \<Longrightarrow> roundHalfEven z < i"
proof -
  assume a: "z < of_int i - 1 / 2"
  from roundHalfEven_error [of z] have "of_int (roundHalfEven z) \<le> z + 1 / 2" by linarith
  with a have "(of_int (roundHalfEven z) :: rat) < of_int i" by linarith
  then show ?thesis by (simp only: of_int_less_iff)
qed

lemma roundHalfEven_gt: "of_int i + 1 / 2 < z \<Longrightarrow> i < roundHalfEven z"
proof -
  assume a: "of_int i + 1 / 2 < z"
  from roundHalfEven_error [of z] have "z - 1 / 2 \<le> of_int (roundHalfEven z)" by linarith
  with a have "(of_int i :: rat) < of_int (roundHalfEven z)" by linarith
  then show ?thesis by (simp only: of_int_less_iff)
qed

text \<open>
  The double nearest to a positive quotient x / b of integers, for x below 2^53: a
  multiple of 1 / n for a power of two n with b < 2 * n.
\<close>

lemma nearestDouble_quotient:
  fixes x b :: int
  assumes x: "0 < x" "x < 2 ^ 53" and b: "0 < b"
  obtains n :: int where "0 < n" "b < 2 * n"
    "nearestDouble (of_int x / of_int b) =
       of_int (roundHalfEven (of_int x / of_int b * of_int n)) / of_int n"
proof -
  define y :: rat where "y = of_int x / of_int b"
  define e where "e = binaryExponent y"
  have y0: "0 < y" using x b by (simp add: y_def)
  have le: "2 powi e \<le> y" unfolding e_def using y0 by (rule binaryExponent_le)
  have "y \<le> of_int x"
  proof -
    have "(1::rat) \<le> of_int b" using b by (simp add: of_int_1_le_iff)
    then show ?thesis using x(1) by (simp add: y_def divide_le_eq mult_le_cancel_left1)
  qed
  also have "\<dots> < 2 powi 53"
  proof -
    have "(of_int x :: rat) < of_int (2 ^ 53)" using x(2) by (simp only: of_int_less_iff)
    then show ?thesis by simp
  qed
  finally have "y < 2 powi 53" .
  with le have "(2::rat) powi e < 2 powi 53" by (rule le_less_trans)
  then have "e < 53" by (rule power_int_le_imp_less_exp [rotated]) simp_all
  then have e52: "0 \<le> 52 - e" by simp
  define n :: int where "n = 2 ^ nat (52 - e)"
  have n0: "0 < n" by (simp add: n_def)
  have pn: "(2::rat) powi (52 - e) = of_int n" using e52 by (simp add: n_def power_int_def)
  have "e - 52 = - (52 - e)" by simp
  then have "(2::rat) powi (e - 52) = 2 powi (- (52 - e))" by (rule arg_cong)
  also have "\<dots> = inverse (of_int n)" by (simp only: power_int_minus pn)
  finally have ulp: "(2::rat) powi (e - 52) = inverse (of_int n)" .
  have "(2::rat) powi 52 = 2 powi (e + (52 - e))" by simp
  also have "\<dots> = 2 powi e * 2 powi (52 - e)" by (rule power_int_add) simp
  also have "\<dots> \<le> y * of_int n" unfolding pn using le n0 by (simp add: mult_right_mono)
  finally have big: "2 ^ 52 \<le> y * of_int n" by simp
  have bn: "b < 2 * n"
  proof -
    have b': "(0::rat) < of_int b" using b by simp
    from big have "2 ^ 52 * of_int b \<le> of_int x * (of_int n :: rat)"
      using b' by (simp add: y_def field_simps)
    then have "(of_int (2 ^ 52 * b) :: rat) \<le> of_int (x * n)" by simp
    then have "2 ^ 52 * b \<le> x * n" by (simp only: of_int_le_iff)
    also have "x * n < 2 ^ 53 * n" using x(2) n0 by (simp only: mult_strict_right_mono)
    finally have "2 ^ 52 * b < 2 ^ 52 * (2 * n)" by simp
    then show ?thesis by simp
  qed
  have "nearestDouble y = of_int (roundHalfEven (y * of_int n)) / of_int n"
    by (simp add: nearestDouble_def Let_def e_def [symmetric] ulp divide_inverse)
  with n0 bn show ?thesis using that by (simp add: y_def)
qed


lemma floor_double_quotient_pos:
  fixes x b :: int
  assumes x: "0 < x" "x < 2 ^ 53" and b: "0 < b"
  shows "of_int (x div b) \<le> nearestDouble (of_int x / of_int b)"
    and "nearestDouble (of_int x / of_int b) \<le> of_int (x div b) + 1"
    and "nearestDouble (of_int x / of_int b) = of_int (x div b) + 1 \<Longrightarrow> False"
    and "x mod b = 0 \<Longrightarrow> nearestDouble (of_int x / of_int b) = of_int (x div b)"
    and "x mod b \<noteq> 0 \<Longrightarrow> of_int (x div b) < nearestDouble (of_int x / of_int b)"
proof -
  from nearestDouble_quotient [OF x b] obtain n :: int where
    n: "0 < n" "b < 2 * n"
    and d: "nearestDouble (of_int x / of_int b) =
       of_int (roundHalfEven (of_int x / of_int b * of_int n)) / of_int n"
    by blast
  define k where "k = x div b"
  define m where "m = x mod b"
  define z :: rat where "z = of_int x / of_int b * of_int n"
  define c :: rat where "c = of_int n / of_int b"
  have b': "(0::rat) < of_int b" and n': "(0::rat) < of_int n" using b n(1) by simp_all
  have m: "0 \<le> m" "m < b" using b by (simp_all add: m_def)
  have xkm: "x = k * b + m" by (simp add: k_def m_def)
  have c: "1 / 2 < c"
  proof -
    have "(of_int b :: rat) < of_int (2 * n)" using n(2) by (simp only: of_int_less_iff)
    then show ?thesis using b' by (simp add: c_def field_simps)
  qed
  have z: "z = of_int (k * n) + of_int m * c"
    unfolding z_def c_def xkm using b' by (simp add: field_simps)
  have zlo: "of_int (k * n) \<le> z" using m(1) c unfolding z by simp
  have "of_int m * c \<le> of_int (b - 1) * c"
  proof -
    have "m \<le> b - 1" using m(2) by simp
    then have "(of_int m :: rat) \<le> of_int (b - 1)" by (simp only: of_int_le_iff)
    then show ?thesis using c by (simp only: mult_right_mono)
  qed
  also have "\<dots> = of_int n - c" using b' by (simp add: c_def field_simps)
  finally have zhi: "z < of_int ((k + 1) * n) - 1 / 2" using c unfolding z
    by (simp add: algebra_simps)
  have r1: "k * n \<le> roundHalfEven z" using zlo by (rule roundHalfEven_ge)
  have r2: "roundHalfEven z < (k + 1) * n" using zhi by (rule roundHalfEven_lt)
  have nd: "nearestDouble (of_int x / of_int b) = of_int (roundHalfEven z) / of_int n"
    by (simp add: d z_def)
  show lo: "of_int (x div b) \<le> nearestDouble (of_int x / of_int b)"
  proof -
    have "(of_int (k * n) :: rat) \<le> of_int (roundHalfEven z)" using r1 by (simp only: of_int_le_iff)
    then show ?thesis unfolding nd k_def [symmetric] using n' by (simp add: field_simps)
  qed
  have lt: "nearestDouble (of_int x / of_int b) < of_int (x div b) + 1"
  proof -
    have "(of_int (roundHalfEven z) :: rat) < of_int ((k + 1) * n)"
      using r2 by (simp only: of_int_less_iff)
    then show ?thesis unfolding nd k_def [symmetric] using n' by (simp add: field_simps)
  qed
  from lt show "nearestDouble (of_int x / of_int b) \<le> of_int (x div b) + 1" by simp
  from lt show "nearestDouble (of_int x / of_int b) = of_int (x div b) + 1 \<Longrightarrow> False" by simp
  show "nearestDouble (of_int x / of_int b) = of_int (x div b)" if "x mod b = 0"
  proof -
    from that have "z = of_int (k * n)" unfolding z by (simp add: m_def)
    then have "roundHalfEven z = k * n" by (simp only: roundHalfEven_of_int)
    then show ?thesis unfolding nd k_def [symmetric] using n' by simp
  qed
  show "of_int (x div b) < nearestDouble (of_int x / of_int b)" if "x mod b \<noteq> 0"
  proof -
    from that m(1) have "1 \<le> m" by (simp add: m_def)
    then have "(1::rat) \<le> of_int m" by (simp add: of_int_1_le_iff)
    moreover have "0 \<le> c" using c by linarith
    ultimately have "1 * c \<le> of_int m * c" by (rule mult_right_mono)
    with c have "of_int (k * n) + 1 / 2 < z" unfolding z by linarith
    then have "k * n < roundHalfEven z" by (rule roundHalfEven_gt)
    then have "(of_int (k * n) :: rat) < of_int (roundHalfEven z)" by (simp only: of_int_less_iff)
    then show ?thesis unfolding nd k_def [symmetric] using n' by (simp add: field_simps)
  qed
qed


text \<open>
  \<open>Math.floor\<close> of the double quotient of two integers is their integer quotient, for a
  dividend below 2^53 in magnitude and a positive divisor.
\<close>

lemma floor_double_quotient:
  fixes x b :: int
  assumes x: "\<bar>x\<bar> < 2 ^ 53" and b: "0 < b"
  shows "\<lfloor>jsDivide (of_int x) (of_int b)\<rfloor> = x div b"
proof -
  have b': "(0::rat) < of_int b" using b by simp
  consider "x = 0" | "0 < x" | "x < 0" by linarith
  then show ?thesis
  proof cases
    case 1
    then show ?thesis by (simp add: jsDivide_def toDouble_def)
  next
    case 2
    with x have xb: "x < 2 ^ 53" by simp
    have pos: "(0::rat) < of_int x / of_int b" using 2 b' by simp
    note p = floor_double_quotient_pos [OF 2 xb b]
    have "of_int x / of_int b \<noteq> (0::rat)" "\<not> of_int x / of_int b < (0::rat)"
      using pos by linarith+
    then have td: "jsDivide (of_int x) (of_int b) = nearestDouble (of_int x / of_int b)"
      unfolding jsDivide_def toDouble_def by (simp only: if_False)
    from p(2) p(3) have "nearestDouble (of_int x / of_int b) < of_int (x div b) + 1"
      by (cases "nearestDouble (of_int x / of_int b) = of_int (x div b) + 1") auto
    with p(1) show ?thesis unfolding td by (simp add: floor_unique)
  next
    case 3
    define x' where "x' = - x"
    have x': "0 < x'" "x' < 2 ^ 53" using 3 x by (simp_all add: x'_def)
    have neg: "of_int x / of_int b < (0::rat)" using 3 b' by (simp add: divide_neg_pos)
    note p = floor_double_quotient_pos [OF x' b]
    have "of_int x / of_int b \<noteq> (0::rat)" using neg by linarith
    moreover have "- (of_int x / of_int b) = (of_int x' / of_int b :: rat)"
      by (simp add: x'_def)
    ultimately have td: "jsDivide (of_int x) (of_int b) = - nearestDouble (of_int x' / of_int b)"
      unfolding jsDivide_def toDouble_def using neg by (simp only: if_False if_True)
    show ?thesis
    proof (cases "x' mod b = 0")
      case True
      then have "b dvd x" by (simp add: x'_def dvd_eq_mod_eq_0 [symmetric])
      then have "x div b = - (x' div b)" by (simp add: x'_def div_minus_right dvd_neg_div)
      moreover from p(4) [OF True] have "- nearestDouble (of_int x' / of_int b) =
          of_int (- (x' div b))" by simp
      ultimately show ?thesis unfolding td by (simp only: floor_of_int)
    next
      case False
      then have nd: "\<not> b dvd x'" by (simp add: dvd_eq_mod_eq_0)
      have "x div b = (- x') div b" by (simp add: x'_def)
      also have "\<dots> = - (x' div b) - 1" using False b by (simp add: zdiv_zminus1_eq_if)
      finally have q: "x div b = - (x' div b) - 1" .
      from p(5) [OF False] p(2) have
        "of_int (- (x' div b) - 1) \<le> - nearestDouble (of_int x' / of_int b)"
        "- nearestDouble (of_int x' / of_int b) < of_int (- (x' div b) - 1) + 1"
        by simp_all
      then show ?thesis unfolding td q by (simp only: floor_unique)
    qed
  qed
qed


lemma binaryExponent_gt:
  assumes "0 < x"
  shows "x < 2 powi (binaryExponent x + 1)"
proof -
  obtain p q where pq: "quotient_of x = (p, q)" by (cases "quotient_of x")
  then have q: "0 < q" by (rule quotient_of_denom_pos)
  from pq have x: "x = of_int p / of_int q" by (rule quotient_of_div)
  with assms q have p: "0 < p" by (simp add: zero_less_divide_iff)
  define e0 where "e0 = bitlen p - bitlen q"
  show ?thesis
  proof (cases "2 powi e0 \<le> x")
    case False
    then show ?thesis by (simp add: binaryExponent_def pq e0_def)
  next
    case True
    from bitlen_bounds [OF p] have up: "p < (2::int) ^ nat (bitlen p)" by simp
    from bitlen_bounds [OF q] have lq: "(2::int) ^ nat (bitlen q - 1) \<le> q" by simp
    from q have bq: "1 \<le> bitlen q" by (auto simp: bitlen_alt_def)
    have bp: "0 \<le> bitlen p" by (rule bitlen_nonneg)
    have q': "(0::rat) < of_int q" using q by simp
    have "of_int p / of_int q < (2::rat) ^ nat (bitlen p) / of_int q"
    proof -
      have "(of_int p :: rat) < of_int ((2::int) ^ nat (bitlen p))"
        using up by (simp only: of_int_less_iff)
      then show ?thesis using q' by (simp add: divide_strict_right_mono)
    qed
    also have "\<dots> \<le> 2 ^ nat (bitlen p) / 2 ^ nat (bitlen q - 1)"
    proof -
      have "(of_int ((2::int) ^ nat (bitlen q - 1)) :: rat) \<le> of_int q"
        using lq by (simp only: of_int_le_iff)
      then show ?thesis by (simp add: frac_le)
    qed
    also have "\<dots> = 2 powi (bitlen p) / 2 powi (bitlen q - 1)"
      using bp bq by (simp add: power_int_def)
    also have "\<dots> = 2 powi (bitlen p - (bitlen q - 1))"
      by (rule power_int_diff [symmetric]) simp
    also have "bitlen p - (bitlen q - 1) = e0 + 1" by (simp add: e0_def)
    finally have "x < 2 powi (e0 + 1)" by (simp add: x)
    with True show ?thesis by (simp add: binaryExponent_def pq e0_def)
  qed
qed

lemma rate_23_40: "mathRound (jsMultiply (jsDivide 23 40) 100) = 57"
  by code_simp

lemma rate_1_8: "mathRound (jsMultiply (jsDivide 1 8) 100) = 13"
  by code_simp

lemma exact_23_40: "mathRound (100 * 23 / 40) = 58"
  by (simp add: mathRound_def)

lemma exact_1_8: "mathRound (100 * 1 / 8) = 13"
  by (simp add: mathRound_def)

lemma exact_1_3: "mathRound (100 * 1 / 3) = 33"
  by code_simp

text \<open>
  Claim C9, as stated, fails on the code: with 23 of 40 notifications responded to,
  \<open>100 * 23 / 40\<close> is 57.5 and rounds to 58, but the code divides first, the double
  nearest to 23/40 times 100 is the double just below 57.5, and \<open>getResponseRate\<close>
  returns 57. With 1 of 8 the product is exactly 12.5 and the result is 13, so no rule
  for ties makes the formula agree with the code in both cases.
\<close>

theorem getResponseRate_counterexample:
  "getResponseRate (exampleCounted 40 23) = 57 \<and> mathRound (100 * 23 / 40) = 58 \<and>
   getResponseRate (exampleCounted 8 1) = 13 \<and> mathRound (100 * 1 / 8) = 13"
  using rate_23_40 rate_1_8 exact_23_40 exact_1_8
  by (simp add: getResponseRate_def exampleCounted_def)

lemma getResponseRate_bounds:
  assumes "0 < sent (notifications a)" "0 \<le> responded (notifications a)"
    "responded (notifications a) < 2 ^ 40"
  shows "(getResponseRate a =
            mathRound (100 * of_int (responded (notifications a)) / of_int (sent (notifications a))) \<or>
          getResponseRate a =
            mathRound (100 * of_int (responded (notifications a)) / of_int (sent (notifications a))) - 1) \<and>
         ((200 * responded (notifications a) + sent (notifications a)) mod
            (2 * sent (notifications a)) \<noteq> 0 \<longrightarrow>
          getResponseRate a =
            mathRound (100 * of_int (responded (notifications a)) / of_int (sent (notifications a))))"
proof -
  note p = percent_round [OF assms(2) assms(3) assms(1)]
  have g: "getResponseRate a =
      mathRound (jsMultiply (jsDivide (of_int (responded (notifications a)))
        (of_int (sent (notifications a)))) 100)"
    using assms(1) by (simp add: getResponseRate_def)
  from p(2) p(3) p(4) show ?thesis unfolding g p(1) [symmetric] by auto
qed

lemma getConversionRate_bounds:
  assumes "responses a \<noteq> []" "length (responses a) < 2 ^ 40"
  shows "(getConversionRate a =
            mathRound (100 * of_int (int (length (filter r_donationCompleted (responses a)))) /
                       of_int (int (length (responses a)))) \<or>
          getConversionRate a =
            mathRound (100 * of_int (int (length (filter r_donationCompleted (responses a)))) /
                       of_int (int (length (responses a)))) - 1) \<and>
         ((200 * int (length (filter r_donationCompleted (responses a))) +
             int (length (responses a))) mod (2 * int (length (responses a))) \<noteq> 0 \<longrightarrow>
          getConversionRate a =
            mathRound (100 * of_int (int (length (filter r_donationCompleted (responses a)))) /
                       of_int (int (length (responses a)))))"
proof -
  define n where "n = int (length (responses a))"
  define k where "k = int (length (filter r_donationCompleted (responses a)))"
  have n: "0 < n" using assms(1) by (simp add: n_def)
  have k0: "0 \<le> k" by (simp add: k_def)
  have "length (filter r_donationCompleted (responses a)) \<le> length (responses a)"
    by (rule length_filter_le)
  from this assms(2) have "length (filter r_donationCompleted (responses a)) < 2 ^ 40"
    by (rule le_less_trans)
  then have kb: "k < 2 ^ 40" unfolding k_def by (simp only: of_nat_less_numeral_power_cancel_iff)
  note p = percent_round [OF k0 kb n]
  have g: "getConversionRate a = mathRound (jsMultiply (jsDivide (of_int k) (of_int n)) 100)"
    using n by (simp add: getConversionRate_def Let_def n_def k_def)
  from p(2) p(3) p(4) show ?thesis
    unfolding g p(1) [symmetric] n_def [symmetric] k_def [symmetric] by auto
qed

text \<open>
  Claim C9, amended. \<open>getResponseRate\<close> returns 0 when \<open>notifications.sent\<close> is 0 and
  \<open>getConversionRate\<close> returns 0 when there are no responses. Otherwise each returns
  \<open>Math.round\<close> of the double product (numerator / denominator) * 100: of responded
  over sent for the response rate, of the number of responses with \<open>donationCompleted\<close>
  over the number of responses for the conversion rate. For counters below 2^40 this is
  the rounded exact percentage, a tie going up, or one less than it; and it is the
  rounded exact percentage whenever the exact percentage is not halfway between two
  integers.
\<close>

theorem rates_rounding:
  "(sent (notifications a) = 0 \<longrightarrow> getResponseRate a = 0) \<and>
   (responses a = [] \<longrightarrow> getConversionRate a = 0) \<and>
   (sent (notifications a) \<noteq> 0 \<longrightarrow>
      getResponseRate a =
        mathRound (jsMultiply (jsDivide (of_int (responded (notifications a)))
          (of_int (sent (notifications a)))) 100)) \<and>
   (responses a \<noteq> [] \<longrightarrow>
      getConversionRate a =
        mathRound (jsMultiply
          (jsDivide (of_int (int (length (filter r_donationCompleted (responses a)))))
            (of_int (int (length (responses a))))) 100)) \<and>
   (0 < sent (notifications a) \<and> 0 \<le> responded (notifications a) \<and>
    responded (notifications a) < 2 ^ 40 \<longrightarrow>
      (getResponseRate a =
         mathRound (100 * of_int (responded (notifications a)) / of_int (sent (notifications a))) \<or>
       getResponseRate a =
         mathRound (100 * of_int (responded (notifications a)) / of_int (sent (notifications a))) - 1) \<and>
      ((200 * responded (notifications a) + sent (notifications a)) mod
         (2 * sent (notifications a)) \<noteq> 0 \<longrightarrow>
       getResponseRate a =
         mathRound (100 * of_int (responded (notifications a)) / of_int (sent (notifications a))))) \<and>
   (responses a \<noteq> [] \<and> length (responses a) < 2 ^ 40 \<longrightarrow>
      (getConversionRate a =
         mathRound (100 * of_int (int (length (filter r_donationCompleted (responses a)))) /
                    of_int (int (length (responses a)))) \<or>
       getConversionRate a =
         mathRound (100 * of_int (int (length (filter r_donationCompleted (responses a)))) /
                    of_int (int (length (responses a)))) - 1) \<and>
      ((200 * int (length (filter r_donationCompleted (responses a))) +
          int (length (responses a))) mod (2 * int (length (responses a))) \<noteq> 0 \<longrightarrow>
       getConversionRate a =
         mathRound (100 * of_int (int (length (filter r_donationCompleted (responses a)))) /
                    of_int (int (length (responses a))))))"
proof -
  have p1: "sent (notifications a) = 0 \<longrightarrow> getResponseRate a = 0"
    by (simp add: getResponseRate_def)
  have p2: "responses a = [] \<longrightarrow> getConversionRate a = 0"
    by (simp add: getConversionRate_def)
  have p3: "sent (notifications a) \<noteq> 0 \<longrightarrow>
      getResponseRate a =
        mathRound (jsMultiply (jsDivide (of_int (responded (notifications a)))
          (of_int (sent (notifications a)))) 100)"
    by (simp add: getResponseRate_def)
  have p3': "responses a \<noteq> [] \<longrightarrow>
      getConversionRate a =
        mathRound (jsMultiply
          (jsDivide (of_int (int (length (filter r_donationCompleted (responses a)))))
            (of_int (int (length (responses a))))) 100)"
    by (simp add: getConversionRate_def Let_def)
  note p4 = getResponseRate_bounds [of a]
  note p5 = getConversionRate_bounds [of a]
  from p1 p2 p3 p3' p4 p5 show ?thesis by blast
qed

lemma exampleConverted_counts:
  "responses (exampleConverted k m) \<noteq> [] = (0 < k + m)"
  "int (length (responses (exampleConverted k m))) = int k + int m"
  "int (length (filter r_donationCompleted (responses (exampleConverted k m)))) = int k"
  by (simp_all add: exampleConverted_def exampleResponse_def)

text \<open>
  The example alert: both rates are 0 with nothing sent and no response. With 1 of 3,
  not a tie, both rates are the rounded exact percentage 33. With 23 of 40, a tie at
  57.5, both rates are 57: 23 of 40 notifications responded to, and 23 of 40 responses
  with a completed donation.
\<close>

theorem rates_rounding_witness:
  "sent (notifications (exampleAlert 1000)) = 0 \<and> getResponseRate (exampleAlert 1000) = 0 \<and>
   responses (exampleAlert 1000) = [] \<and> getConversionRate (exampleAlert 1000) = 0 \<and>
   sent (notifications (exampleCounted 3 1)) = 3 \<and>
   responded (notifications (exampleCounted 3 1)) = 1 \<and>
   (200 * 1 + 3) mod (2 * 3) = (5::int) \<and>
   getResponseRate (exampleCounted 3 1) = 33 \<and>
   getResponseRate (exampleCounted 40 23) = 57 \<and>
   length (responses (exampleConverted 1 2)) = 3 \<and>
   length (filter r_donationCompleted (responses (exampleConverted 1 2))) = 1 \<and>
   getConversionRate (exampleConverted 1 2) = 33 \<and>
   length (responses (exampleConverted 23 17)) = 40 \<and>
   length (filter r_donationCompleted (responses (exampleConverted 23 17))) = 23 \<and>
   getConversionRate (exampleConverted 23 17) = 57"
proof -
  note t0 = rates_rounding [of "exampleAlert 1000"]
  note t1 = rates_rounding [of "exampleCounted 3 1"]
  note t2 = rates_rounding [of "exampleCounted 40 23"]
  note t3 = rates_rounding [of "exampleConverted 1 2"]
  note t4 = rates_rounding [of "exampleConverted 23 17"]
  have z: "sent (notifications (exampleAlert 1000)) = 0" "responses (exampleAlert 1000) = []"
    by (simp_all add: exampleAlert_def newAlert_def)
  have c: "sent (notifications (exampleCounted 3 1)) = 3"
    "responded (notifications (exampleCounted 3 1)) = 1"
    "sent (notifications (exampleCounted 40 23)) = 40"
    "responded (notifications (exampleCounted 40 23)) = 23"
    by (simp_all add: exampleCounted_def)
  have r0: "getResponseRate (exampleAlert 1000) = 0"
    using t0 [THEN conjunct1] z(1) by simp
  have c0: "getConversionRate (exampleAlert 1000) = 0"
    using t0 [THEN conjunct2, THEN conjunct1] z(2) by simp
  have m: "(200 * 1 + 3) mod (2 * 3) = (5::int)" by simp
  have "getResponseRate (exampleCounted 3 1) = mathRound (100 * of_int 1 / of_int 3)"
    using t1 [THEN conjunct2, THEN conjunct2, THEN conjunct2, THEN conjunct2, THEN conjunct1]
      c(1,2) by simp
  then have r1: "getResponseRate (exampleCounted 3 1) = 33"
    using exact_1_3 by simp
  have r2: "getResponseRate (exampleCounted 40 23) = 57"
    using t2 [THEN conjunct2, THEN conjunct2, THEN conjunct1] c(3,4) rate_23_40 by simp
  have l3: "length (responses (exampleConverted 1 2)) = 3"
    "length (filter r_donationCompleted (responses (exampleConverted 1 2))) = 1"
    "responses (exampleConverted 1 2) \<noteq> []"
    by (simp_all add: exampleConverted_def exampleResponse_def)
  have l4: "length (responses (exampleConverted 23 17)) = 40"
    "length (filter r_donationCompleted (responses (exampleConverted 23 17))) = 23"
    "responses (exampleConverted 23 17) \<noteq> []"
    by (simp_all add: exampleConverted_def exampleResponse_def)
  have "getConversionRate (exampleConverted 1 2) = mathRound (100 * of_int 1 / of_int 3)"
    using t3 [THEN conjunct2, THEN conjunct2, THEN conjunct2, THEN conjunct2, THEN conjunct2]
      l3 by simp
  then have v1: "getConversionRate (exampleConverted 1 2) = 33"
    using exact_1_3 by simp
  have v2: "getConversionRate (exampleConverted 23 17) = 57"
    using t4 [THEN conjunct2, THEN conjunct2, THEN conjunct2, THEN conjunct1] l4 rate_23_40
    by simp
  show ?thesis using z c r0 c0 m r1 r2 l3 l4 v1 v2 by simp
qed

end
